theory Spec2Isabelle
  imports Complex_Main "HOL-Library.Sublist"
begin

section \<open>Python strings\<close>

text \<open>
  Strings are lists of characters. The model covers ASCII text: white space is the ASCII
  white space of \<^verbatim>\<open>str.isspace\<close>, and case conversion acts on the letters A to Z.
\<close>

definition is_space :: "char \<Rightarrow> bool" where
  "is_space c = (c \<in> set [CHR 0x09, CHR 0x0A, CHR 0x0B, CHR 0x0C, CHR 0x0D,
                           CHR 0x1C, CHR 0x1D, CHR 0x1E, CHR 0x1F, CHR 0x20])"

text \<open>\<^verbatim>\<open>s.strip()\<close>\<close>

definition strip :: "string \<Rightarrow> string" where
  "strip s = rev (dropWhile is_space (rev (dropWhile is_space s)))"

text \<open>\<^verbatim>\<open>s.split()\<close>: the maximal runs of characters that are not white space. The first
  argument is the run read so far, reversed.\<close>

fun split_run :: "string \<Rightarrow> string \<Rightarrow> string list" where
  "split_run cur [] = (if cur = [] then [] else [rev cur])"
| "split_run cur (c # cs) =
     (if is_space c then (if cur = [] then split_run [] cs else rev cur # split_run [] cs)
      else split_run (c # cur) cs)"

definition py_split :: "string \<Rightarrow> string list" where
  "py_split s = split_run [] s"

text \<open>\<^verbatim>\<open>sub in s\<close> on strings.\<close>

fun py_in :: "string \<Rightarrow> string \<Rightarrow> bool" where
  "py_in sub [] = (sub = [])"
| "py_in sub (c # cs) = (prefix sub (c # cs) \<or> py_in sub cs)"

text \<open>\<^verbatim>\<open>s.replace(old, new)\<close> for a non-empty \<open>old\<close> (the only use in the sources):
  occurrences are replaced from the left, without overlap.\<close>

fun py_replace :: "string \<Rightarrow> string \<Rightarrow> string \<Rightarrow> string" where
  "py_replace old new [] = []"
| "py_replace old new (c # cs) =
     (if prefix old (c # cs) then new @ py_replace old new (drop (length old - 1) cs)
      else c # py_replace old new cs)"

definition lower_char :: "char \<Rightarrow> char" where
  "lower_char c =
     (case map_of (zip ''ABCDEFGHIJKLMNOPQRSTUVWXYZ'' ''abcdefghijklmnopqrstuvwxyz'') c of
        Some d \<Rightarrow> d | None \<Rightarrow> c)"

definition upper_char :: "char \<Rightarrow> char" where
  "upper_char c =
     (case map_of (zip ''abcdefghijklmnopqrstuvwxyz'' ''ABCDEFGHIJKLMNOPQRSTUVWXYZ'') c of
        Some d \<Rightarrow> d | None \<Rightarrow> c)"

definition py_lower :: "string \<Rightarrow> string" where
  "py_lower s = map lower_char s"

text \<open>\<^verbatim>\<open>s.capitalize()\<close>\<close>

fun py_capitalize :: "string \<Rightarrow> string" where
  "py_capitalize [] = []"
| "py_capitalize (c # cs) = upper_char c # map lower_char cs"

subsection \<open>Integers and text\<close>

definition is_digit :: "char \<Rightarrow> bool" where
  "is_digit c = (c \<in> set ''0123456789'')"

definition digit_val :: "char \<Rightarrow> nat" where
  "digit_val c =
     (case map_of (zip ''0123456789'' [0, 1, 2, 3, 4, 5, 6, 7, 8, 9]) c of
        Some d \<Rightarrow> d | None \<Rightarrow> 0)"

definition digit_char :: "nat \<Rightarrow> char" where
  "digit_char d = ''0123456789'' ! (d mod 10)"

text \<open>\<^verbatim>\<open>str(n)\<close> for \<open>n \<ge> 0\<close>, and for any integer.\<close>

fun str_of_nat :: "nat \<Rightarrow> string" where
  "str_of_nat n = (if n < 10 then [digit_char n] else str_of_nat (n div 10) @ [digit_char (n mod 10)])"

declare str_of_nat.simps [simp del]

definition py_str :: "int \<Rightarrow> string" where
  "py_str i = (if i < 0 then CHR ''-'' # str_of_nat (nat (- i)) else str_of_nat (nat i))"

text \<open>The format \<^verbatim>\<open>{n:02d}\<close> for \<open>n \<ge> 0\<close>: zeros on the left up to two characters.\<close>

definition fmt_02d :: "nat \<Rightarrow> string" where
  "fmt_02d n = (let s = str_of_nat n in replicate (2 - length s) CHR ''0'' @ s)"

text \<open>
  \<^verbatim>\<open>int(s)\<close> on a string: white space around the number is dropped, a sign may come
  first, then decimal digits, where single underscores may stand between two digits.
  \<open>None\<close> is the \<^verbatim>\<open>ValueError\<close>.
\<close>

fun parse_digits :: "string \<Rightarrow> nat \<Rightarrow> nat option" where
  "parse_digits [] acc = Some acc"
| "parse_digits (c # cs) acc =
     (if is_digit c then parse_digits cs (10 * acc + digit_val c)
      else if c = CHR ''_'' then
        (case cs of
           [] \<Rightarrow> None
         | d # ds \<Rightarrow> if is_digit d then parse_digits ds (10 * acc + digit_val d) else None)
      else None)"

definition parse_unsigned :: "string \<Rightarrow> nat option" where
  "parse_unsigned s =
     (case s of
        [] \<Rightarrow> None
      | c # cs \<Rightarrow> if is_digit c then parse_digits cs (digit_val c) else None)"

definition py_int :: "string \<Rightarrow> int option" where
  "py_int s =
     (case strip s of
        [] \<Rightarrow> None
      | c # cs \<Rightarrow>
          if c = CHR ''-'' then map_option (\<lambda>n. - int n) (parse_unsigned cs)
          else if c = CHR ''+'' then map_option int (parse_unsigned cs)
          else map_option int (parse_unsigned (c # cs)))"

section \<open>Parsed documents\<close>

text \<open>
  The tree that \<^verbatim>\<open>BeautifulSoup(text, "html.parser")\<close> builds: a tag with its name, its
  attribute dictionary and its children, a text node, or a comment with its text. The
  document itself is a tag (named \<^verbatim>\<open>[document]\<close>, with no attributes).
\<close>

datatype node =
    Tag string "(string \<times> string) list" "node list"
  | NavigableString string
  | Comment string

text \<open>A node followed by everything below it, in document order.\<close>

fun flatten :: "node \<Rightarrow> node list" where
  "flatten (Tag n a cs) = Tag n a cs # concat (map flatten cs)"
| "flatten (NavigableString s) = [NavigableString s]"
| "flatten (Comment s) = [Comment s]"

text \<open>\<^verbatim>\<open>tag.descendants\<close>\<close>

fun descendants :: "node \<Rightarrow> node list" where
  "descendants (Tag n a cs) = concat (map flatten cs)"
| "descendants (NavigableString s) = []"
| "descendants (Comment s) = []"

fun is_tag :: "node \<Rightarrow> bool" where
  "is_tag (Tag n a cs) = True"
| "is_tag (NavigableString s) = False"
| "is_tag (Comment s) = False"

fun has_name :: "string \<Rightarrow> node \<Rightarrow> bool" where
  "has_name nm (Tag n a cs) = (n = nm)"
| "has_name nm (NavigableString s) = False"
| "has_name nm (Comment s) = False"

text \<open>\<^verbatim>\<open>tag.get(key)\<close>, \<open>None\<close> when the attribute is absent.\<close>

fun get_attr :: "node \<Rightarrow> string \<Rightarrow> string option" where
  "get_attr (Tag n a cs) k = map_of a k"
| "get_attr (NavigableString s) k = None"
| "get_attr (Comment s) k = None"

text \<open>\<^verbatim>\<open>tag.find(name)\<close> and \<^verbatim>\<open>tag.find_all(name)\<close>; \<^verbatim>\<open>find_all(["th", "td"])\<close>.\<close>

definition find_tag :: "node \<Rightarrow> string \<Rightarrow> node option" where
  "find_tag t nm = List.find (has_name nm) (descendants t)"

definition find_all_tag :: "node \<Rightarrow> string \<Rightarrow> node list" where
  "find_all_tag t nm = filter (has_name nm) (descendants t)"

definition find_all_cells :: "node \<Rightarrow> node list" where
  "find_all_cells t = filter (\<lambda>x. has_name ''th'' x \<or> has_name ''td'' x) (descendants t)"

text \<open>\<^verbatim>\<open>tag.find(attrs={"data-stat": key})\<close>\<close>

definition find_data_stat :: "node \<Rightarrow> string \<Rightarrow> node option" where
  "find_data_stat t key =
     List.find (\<lambda>x. is_tag x \<and> get_attr x ''data-stat'' = Some key) (descendants t)"

text \<open>\<^verbatim>\<open>tag.find(name, id=ident)\<close>\<close>

definition find_by_id :: "node \<Rightarrow> string \<Rightarrow> string \<Rightarrow> node option" where
  "find_by_id t nm ident =
     List.find (\<lambda>x. has_name nm x \<and> get_attr x ''id'' = Some ident) (descendants t)"

text \<open>
  \<^verbatim>\<open>tag.get_text(strip=True)\<close>: the text nodes below the tag (comments are not text), each
  stripped, the empty ones dropped, joined with nothing between them.
\<close>

fun text_of :: "node \<Rightarrow> string list" where
  "text_of (NavigableString s) = [s]"
| "text_of (Tag n a cs) = []"
| "text_of (Comment s) = []"

definition get_text :: "node \<Rightarrow> string" where
  "get_text t = concat (filter (\<lambda>s. s \<noteq> []) (map strip (concat (map text_of (descendants t)))))"

text \<open>
  The parser stores the value of \<^verbatim>\<open>class\<close> as the list of its white-space separated
  tokens. \<^verbatim>\<open>'class' in row.attrs and c in row['class']\<close>:
\<close>

definition has_class :: "node \<Rightarrow> string \<Rightarrow> bool" where
  "has_class t c = (case get_attr t ''class'' of None \<Rightarrow> False | Some v \<Rightarrow> c \<in> set (py_split v))"

section \<open>Python values and errors\<close>

datatype pyfloat = Finite real | PosInf | NegInf | NaN

datatype pyval = PNone | PInt int | PFloat pyfloat | PStr string

datatype error = ValueError | AttributeError | IntegrityError

text \<open>\<^verbatim>\<open>==\<close> between two Python numbers (an int and a float compare by value).\<close>

fun py_num_eq :: "pyval \<Rightarrow> pyval \<Rightarrow> bool" where
  "py_num_eq (PInt i) (PInt j) = (i = j)"
| "py_num_eq (PInt i) (PFloat (Finite y)) = (real_of_int i = y)"
| "py_num_eq (PFloat (Finite x)) (PInt j) = (x = real_of_int j)"
| "py_num_eq (PFloat x) (PFloat y) = (x = y \<and> x \<noteq> NaN)"
| "py_num_eq _ _ = False"

section \<open>Box-score rows (boxscorescraper.py, advancedboxscorescraper.py)\<close>

text \<open>
  A row record is the Python dictionary \<^verbatim>\<open>row_dict\<close>: its keys in the order of the
  dictionary display, looked up with \<open>map_of\<close>. \<^verbatim>\<open>float\<close> on a string is the parameter
  \<open>fl\<close> (\<open>None\<close> is the \<^verbatim>\<open>ValueError\<close>).
\<close>

type_synonym row_dict = "(string \<times> pyval) list"

text \<open>The entries of a dictionary display are evaluated in order; the first one that
  raises ends the evaluation.\<close>

fun build_dict :: "(string \<times> (error + pyval)) list \<Rightarrow> error + row_dict" where
  "build_dict [] = Inr []"
| "build_dict ((k, Inl e) # rest) = Inl e"
| "build_dict ((k, Inr v) # rest) =
     (case build_dict rest of Inl e \<Rightarrow> Inl e | Inr d \<Rightarrow> Inr ((k, v) # d))"

text \<open>\<^verbatim>\<open>row.find(attrs={"data-stat": k}).get_text(strip=True) if row.find(...) else None\<close>\<close>

definition text_stat :: "node \<Rightarrow> string \<Rightarrow> pyval" where
  "text_stat row key =
     (case find_data_stat row key of None \<Rightarrow> PNone | Some cell \<Rightarrow> PStr (get_text cell))"

text \<open>\<^verbatim>\<open>int(row.find(attrs={"data-stat": k}).get_text(strip=True) or 0) if row.find(...) else 0\<close>\<close>

definition int_stat :: "node \<Rightarrow> string \<Rightarrow> error + pyval" where
  "int_stat row key =
     (case find_data_stat row key of
        None \<Rightarrow> Inr (PInt 0)
      | Some cell \<Rightarrow>
          (let t = get_text cell in
           if t = [] then Inr (PInt 0)
           else (case py_int t of None \<Rightarrow> Inl ValueError | Some i \<Rightarrow> Inr (PInt i))))"

text \<open>\<^verbatim>\<open>float(row.find(attrs={"data-stat": k}).get_text(strip=True) or 0) if row.find(...) else 0\<close>:
  an absent cell gives the integer \<^verbatim>\<open>0\<close>, an empty one \<^verbatim>\<open>float(0)\<close>.\<close>

definition float_stat :: "(string \<Rightarrow> pyfloat option) \<Rightarrow> node \<Rightarrow> string \<Rightarrow> error + pyval" where
  "float_stat fl row key =
     (case find_data_stat row key of
        None \<Rightarrow> Inr (PInt 0)
      | Some cell \<Rightarrow>
          (let t = get_text cell in
           if t = [] then Inr (PFloat (Finite 0))
           else (case fl t of None \<Rightarrow> Inl ValueError | Some x \<Rightarrow> Inr (PFloat x))))"

definition starter_flag :: "node \<Rightarrow> pyval" where
  "starter_flag row = PInt (if has_class row ''starter'' then 1 else 0)"

definition box_row_entries ::
  "(string \<Rightarrow> pyfloat option) \<Rightarrow> node \<Rightarrow> string \<Rightarrow> string \<Rightarrow> string \<Rightarrow> (string \<times> (error + pyval)) list"
where
  "box_row_entries fl row box_score_link team_name player_name =
     [(''box_score_link'', Inr (PStr box_score_link)),
      (''team'', Inr (PStr team_name)),
      (''player_name'', Inr (PStr player_name)),
      (''starter'', Inr (starter_flag row)),
      (''mp'', Inr (text_stat row ''mp'')),
      (''fg'', int_stat row ''fg''),
      (''fga'', int_stat row ''fga''),
      (''fg_pct'', float_stat fl row ''fg_pct''),
      (''threep'', int_stat row ''fg3''),
      (''threepa'', int_stat row ''fg3a''),
      (''threep_pct'', float_stat fl row ''fg3_pct''),
      (''ft'', int_stat row ''ft''),
      (''fta'', int_stat row ''fta''),
      (''ft_pct'', float_stat fl row ''ft_pct''),
      (''orb'', int_stat row ''orb''),
      (''drb'', int_stat row ''drb''),
      (''trb'', int_stat row ''trb''),
      (''ast'', int_stat row ''ast''),
      (''stl'', int_stat row ''stl''),
      (''blk'', int_stat row ''blk''),
      (''tov'', int_stat row ''tov''),
      (''pf'', int_stat row ''pf''),
      (''pts'', int_stat row ''pts''),
      (''plus_minus'', int_stat row ''plus_minus'')]"

definition advanced_row_entries ::
  "(string \<Rightarrow> pyfloat option) \<Rightarrow> node \<Rightarrow> string \<Rightarrow> string \<Rightarrow> string \<Rightarrow> (string \<times> (error + pyval)) list"
where
  "advanced_row_entries fl row box_score_link team_name player_name =
     [(''box_score_link'', Inr (PStr box_score_link)),
      (''team'', Inr (PStr team_name)),
      (''player_name'', Inr (PStr player_name)),
      (''starter'', Inr (starter_flag row)),
      (''mp'', Inr (text_stat row ''mp'')),
      (''ts_pct'', float_stat fl row ''ts_pct''),
      (''efg_pct'', float_stat fl row ''efg_pct''),
      (''fg3a_per_fga_pct'', float_stat fl row ''fg3a_per_fga_pct''),
      (''fta_per_fga_pct'', float_stat fl row ''fta_per_fga_pct''),
      (''orb_pct'', float_stat fl row ''orb_pct''),
      (''drb_pct'', float_stat fl row ''drb_pct''),
      (''trb_pct'', float_stat fl row ''trb_pct''),
      (''ast_pct'', float_stat fl row ''ast_pct''),
      (''stl_pct'', float_stat fl row ''stl_pct''),
      (''blk_pct'', float_stat fl row ''blk_pct''),
      (''tov_pct'', float_stat fl row ''tov_pct''),
      (''usg_pct'', float_stat fl row ''usg_pct''),
      (''ortg'', int_stat row ''off_rtg''),
      (''drtg'', int_stat row ''def_rtg'')]"

text \<open>
  The loop over the body rows of \<^verbatim>\<open>parse_box_score_table\<close>. A \<^verbatim>\<open>continue\<close> is the
  recursive call on the remaining rows; a raised error ends the loop.
\<close>

fun box_rows_loop ::
  "(string \<Rightarrow> pyfloat option) \<Rightarrow> string \<Rightarrow> string \<Rightarrow> node list \<Rightarrow> error + row_dict list"
where
  "box_rows_loop fl link team [] = Inr []"
| "box_rows_loop fl link team (row # rows) =
     (if has_class row ''thead'' then box_rows_loop fl link team rows
      else if find_all_cells row = [] then box_rows_loop fl link team rows
      else (case find_data_stat row ''player'' of
              None \<Rightarrow> box_rows_loop fl link team rows
            | Some player_cell \<Rightarrow>
                (let player_name = get_text player_cell in
                 if player_name = [] \<or> py_in ''Totals'' player_name
                 then box_rows_loop fl link team rows
                 else (case build_dict (box_row_entries fl row link team player_name) of
                         Inl e \<Rightarrow> Inl e
                       | Inr row_dict \<Rightarrow>
                           (case box_rows_loop fl link team rows of
                              Inl e \<Rightarrow> Inl e
                            | Inr players_data \<Rightarrow> Inr (row_dict # players_data))))))"

definition parse_box_score_table ::
  "(string \<Rightarrow> pyfloat option) \<Rightarrow> node \<Rightarrow> string \<Rightarrow> string \<Rightarrow> error + row_dict list"
where
  "parse_box_score_table fl soup box_score_link team_name =
     (case find_tag soup ''tbody'' of
        None \<Rightarrow> Inr []
      | Some tbody \<Rightarrow> box_rows_loop fl box_score_link team_name (find_all_tag tbody ''tr''))"

text \<open>The loop of \<^verbatim>\<open>parse_advanced_box_score_table\<close>; it has no test on the cells of a row.\<close>

fun advanced_rows_loop ::
  "(string \<Rightarrow> pyfloat option) \<Rightarrow> string \<Rightarrow> string \<Rightarrow> node list \<Rightarrow> error + row_dict list"
where
  "advanced_rows_loop fl link team [] = Inr []"
| "advanced_rows_loop fl link team (row # rows) =
     (if has_class row ''thead'' then advanced_rows_loop fl link team rows
      else (case find_data_stat row ''player'' of
              None \<Rightarrow> advanced_rows_loop fl link team rows
            | Some player_cell \<Rightarrow>
                (let player_name = get_text player_cell in
                 if player_name = [] \<or> py_in ''Totals'' player_name
                 then advanced_rows_loop fl link team rows
                 else (case build_dict (advanced_row_entries fl row link team player_name) of
                         Inl e \<Rightarrow> Inl e
                       | Inr row_dict \<Rightarrow>
                           (case advanced_rows_loop fl link team rows of
                              Inl e \<Rightarrow> Inl e
                            | Inr players_data \<Rightarrow> Inr (row_dict # players_data))))))"

definition parse_advanced_box_score_table ::
  "(string \<Rightarrow> pyfloat option) \<Rightarrow> node \<Rightarrow> string \<Rightarrow> string \<Rightarrow> error + row_dict list"
where
  "parse_advanced_box_score_table fl soup box_score_link team_name =
     (case find_tag soup ''tbody'' of
        None \<Rightarrow> Inr []
      | Some tbody \<Rightarrow> advanced_rows_loop fl box_score_link team_name (find_all_tag tbody ''tr''))"

text \<open>The identity field of a body row: the text of its \<^verbatim>\<open>data-stat="player"\<close> cell.\<close>

definition identity_text :: "node \<Rightarrow> string option" where
  "identity_text row = map_option get_text (find_data_stat row ''player'')"

text \<open>The rows that the two loops keep.\<close>

definition advanced_keeps :: "node \<Rightarrow> bool" where
  "advanced_keeps row =
     (\<not> has_class row ''thead'' \<and>
      (case identity_text row of
         None \<Rightarrow> False
       | Some player_name \<Rightarrow> player_name \<noteq> [] \<and> \<not> py_in ''Totals'' player_name))"

definition box_keeps :: "node \<Rightarrow> bool" where
  "box_keeps row = (advanced_keeps row \<and> find_all_cells row \<noteq> [])"

text \<open>\<^verbatim>\<open>tbody.find_all("tr")\<close> of the first \<^verbatim>\<open>tbody\<close>; no rows when there is none.\<close>

definition body_rows :: "node \<Rightarrow> node list" where
  "body_rows soup =
     (case find_tag soup ''tbody'' of None \<Rightarrow> [] | Some tbody \<Rightarrow> find_all_tag tbody ''tr'')"

definition player_name_of :: "row_dict \<Rightarrow> pyval option" where
  "player_name_of r = map_of r ''player_name''"

text \<open>The identity fields of the rows of a list that pass a test, in order.\<close>

definition kept_names :: "(node \<Rightarrow> bool) \<Rightarrow> node list \<Rightarrow> string list" where
  "kept_names keeps rows =
     List.map_filter (\<lambda>row. if keeps row then identity_text row else None) rows"

text \<open>A cell that is absent from the row, or present with an empty text.\<close>

definition blank_cell :: "node \<Rightarrow> string \<Rightarrow> bool" where
  "blank_cell row key =
     (case find_data_stat row key of None \<Rightarrow> True | Some c \<Rightarrow> get_text c = [])"

text \<open>The integer and the float columns of the basic record, each with the \<^verbatim>\<open>data-stat\<close>
  key of its source cell.\<close>

definition int_columns :: "(string \<times> string) list" where
  "int_columns =
     [(''fg'', ''fg''), (''fga'', ''fga''), (''threep'', ''fg3''), (''threepa'', ''fg3a''),
      (''ft'', ''ft''), (''fta'', ''fta''), (''orb'', ''orb''), (''drb'', ''drb''),
      (''trb'', ''trb''), (''ast'', ''ast''), (''stl'', ''stl''), (''blk'', ''blk''),
      (''tov'', ''tov''), (''pf'', ''pf''), (''pts'', ''pts''), (''plus_minus'', ''plus_minus'')]"

definition float_columns :: "(string \<times> string) list" where
  "float_columns = [(''fg_pct'', ''fg_pct''), (''threep_pct'', ''fg3_pct''), (''ft_pct'', ''ft_pct'')]"

text \<open>
  What a record \<open>d\<close> made from a row holds for the cells that are blank: the integer
  columns are \<^verbatim>\<open>0\<close>, the float columns are a number equal to \<^verbatim>\<open>0.0\<close>, and the coercion
  itself returns; the minutes are the text of the cell, or \<^verbatim>\<open>None\<close> without a cell.
\<close>

definition defaults_hold :: "(string \<Rightarrow> pyfloat option) \<Rightarrow> node \<Rightarrow> row_dict \<Rightarrow> bool" where
  "defaults_hold fl row d =
    ((\<forall>(col, key) \<in> set int_columns. blank_cell row key \<longrightarrow>
        int_stat row key = Inr (PInt 0) \<and> map_of d col = Some (PInt 0)) \<and>
     (\<forall>(col, key) \<in> set float_columns. blank_cell row key \<longrightarrow>
        (\<exists>v. float_stat fl row key = Inr v \<and> map_of d col = Some v \<and>
             py_num_eq v (PFloat (Finite 0)))) \<and>
     (find_data_stat row ''fg3_pct'' = None \<longrightarrow>
        (\<exists>v. map_of d ''threep_pct'' = Some v \<and> py_num_eq v (PFloat (Finite 0)))) \<and>
     map_of d ''mp'' =
       Some (case find_data_stat row ''mp'' of None \<Rightarrow> PNone | Some c \<Rightarrow> PStr (get_text c)))"

subsection \<open>An example table\<close>

definition example_float :: "string \<Rightarrow> pyfloat option" where
  "example_float s =
     (if s = ''.609'' then Some (Finite (609 / 1000))
      else if s = ''.727'' then Some (Finite (727 / 1000))
      else if s = ''210'' then Some (Finite 210)
      else None)"

definition cell :: "string \<Rightarrow> string \<Rightarrow> string \<Rightarrow> node" where
  "cell nm key txt = Tag nm [(''data-stat'', key)] [NavigableString txt]"

definition example_body :: node where
  "example_body =
     Tag ''tbody'' []
       [Tag ''tr'' [(''class'', ''starter'')]
          [Tag ''th'' [(''data-stat'', ''player'')]
             [Tag ''a'' [(''href'', ''/players/t/tatumja01.html'')] [NavigableString ''Jayson Tatum'']],
           cell ''td'' ''mp'' ''30:18'', cell ''td'' ''fg'' ''14'', cell ''td'' ''fga'' ''23'',
           cell ''td'' ''fg_pct'' ''.609'', cell ''td'' ''fg3'' ''8'', cell ''td'' ''pts'' ''37'',
           cell ''td'' ''plus_minus'' ''+26''],
        Tag ''tr'' [(''class'', ''thead'')]
          [cell ''th'' ''player'' ''Reserves'', cell ''th'' ''mp'' ''MP''],
        Tag ''tr'' []
          [cell ''th'' ''player'' ''Sam Hauser'', Tag ''td'' [(''data-stat'', ''fg'')] [],
           Tag ''td'' [(''data-stat'', ''ft_pct'')] [NavigableString ''  '']],
        Tag ''tr'' []
          [cell ''th'' ''player'' '' '', cell ''td'' ''fg'' ''3''],
        Tag ''tr'' []
          [cell ''td'' ''fg'' ''3''],
        Tag ''tr'' []
          [cell ''th'' ''player'' ''Team Totals'', cell ''td'' ''mp'' ''240'', cell ''td'' ''fg'' ''48'']]"

definition example_box_table :: node where
  "example_box_table =
     Tag ''table'' [(''id'', ''box-BOS-game-basic'')]
       [Tag ''caption'' [] [NavigableString ''Boston Celtics Basic and Advanced Stats''],
        example_body]"

definition example_link :: string where
  "example_link = ''https://www.basketball-reference.com/boxscores/202410220BOS.html''"

definition example_rows :: "row_dict list" where
  "example_rows =
     [[(''box_score_link'', PStr example_link), (''team'', PStr ''Boston Celtics''),
       (''player_name'', PStr ''Jayson Tatum''), (''starter'', PInt 1),
       (''mp'', PStr ''30:18''), (''fg'', PInt 14), (''fga'', PInt 23),
       (''fg_pct'', PFloat (Finite (609 / 1000))), (''threep'', PInt 8),
       (''threepa'', PInt 0), (''threep_pct'', PInt 0), (''ft'', PInt 0),
       (''fta'', PInt 0), (''ft_pct'', PInt 0), (''orb'', PInt 0),
       (''drb'', PInt 0), (''trb'', PInt 0), (''ast'', PInt 0),
       (''stl'', PInt 0), (''blk'', PInt 0), (''tov'', PInt 0),
       (''pf'', PInt 0), (''pts'', PInt 37), (''plus_minus'', PInt 26)],
      [(''box_score_link'', PStr example_link), (''team'', PStr ''Boston Celtics''),
       (''player_name'', PStr ''Sam Hauser''), (''starter'', PInt 0),
       (''mp'', PNone), (''fg'', PInt 0), (''fga'', PInt 0),
       (''fg_pct'', PInt 0), (''threep'', PInt 0), (''threepa'', PInt 0),
       (''threep_pct'', PInt 0), (''ft'', PInt 0), (''fta'', PInt 0),
       (''ft_pct'', PFloat (Finite 0)), (''orb'', PInt 0), (''drb'', PInt 0),
       (''trb'', PInt 0), (''ast'', PInt 0), (''stl'', PInt 0),
       (''blk'', PInt 0), (''tov'', PInt 0), (''pf'', PInt 0),
       (''pts'', PInt 0), (''plus_minus'', PInt 0)]]"

definition example_advanced_rows :: "row_dict list" where
  "example_advanced_rows =
     [[(''box_score_link'', PStr example_link), (''team'', PStr ''Boston Celtics''),
       (''player_name'', PStr ''Jayson Tatum''), (''starter'', PInt 1),
       (''mp'', PStr ''30:18''), (''ts_pct'', PInt 0), (''efg_pct'', PInt 0),
       (''fg3a_per_fga_pct'', PInt 0), (''fta_per_fga_pct'', PInt 0),
       (''orb_pct'', PInt 0), (''drb_pct'', PInt 0), (''trb_pct'', PInt 0),
       (''ast_pct'', PInt 0), (''stl_pct'', PInt 0), (''blk_pct'', PInt 0),
       (''tov_pct'', PInt 0), (''usg_pct'', PInt 0), (''ortg'', PInt 0), (''drtg'', PInt 0)],
      [(''box_score_link'', PStr example_link), (''team'', PStr ''Boston Celtics''),
       (''player_name'', PStr ''Sam Hauser''), (''starter'', PInt 0),
       (''mp'', PNone), (''ts_pct'', PInt 0), (''efg_pct'', PInt 0),
       (''fg3a_per_fga_pct'', PInt 0), (''fta_per_fga_pct'', PInt 0),
       (''orb_pct'', PInt 0), (''drb_pct'', PInt 0), (''trb_pct'', PInt 0),
       (''ast_pct'', PInt 0), (''stl_pct'', PInt 0), (''blk_pct'', PInt 0),
       (''tov_pct'', PInt 0), (''usg_pct'', PInt 0), (''ortg'', PInt 0), (''drtg'', PInt 0)]]"

subsection \<open>Facts about the strings and the dictionaries\<close>

lemma py_in_iff: "py_in sub s \<longleftrightarrow> (\<exists>p q. s = p @ sub @ q)"
proof (induction s)
  case Nil
  then show ?case by auto
next
  case (Cons c cs)
  show ?case
  proof
    assume "py_in sub (c # cs)"
    then consider "prefix sub (c # cs)" | "py_in sub cs" by auto
    then show "\<exists>p q. c # cs = p @ sub @ q"
    proof cases
      case 1
      then obtain q where "c # cs = sub @ q" by (auto simp: prefix_def)
      then have "c # cs = [] @ sub @ q" by simp
      then show ?thesis by blast
    next
      case 2
      with Cons.IH obtain p q where "cs = p @ sub @ q" by auto
      then have "c # cs = (c # p) @ sub @ q" by simp
      then show ?thesis by blast
    qed
  next
    assume "\<exists>p q. c # cs = p @ sub @ q"
    then obtain p q where pq: "c # cs = p @ sub @ q" by auto
    show "py_in sub (c # cs)"
    proof (cases p)
      case Nil
      with pq have "prefix sub (c # cs)" by (simp add: prefix_def)
      then show ?thesis by simp
    next
      case (Cons a p')
      with pq have "cs = p' @ sub @ q" by simp
      with Cons.IH have "py_in sub cs" by blast
      then show ?thesis by simp
    qed
  qed
qed

lemma build_dict_lookup:
  "build_dict es = Inr d \<Longrightarrow> map_of es k = Some (Inr v) \<Longrightarrow> map_of d k = Some v"
  by (induction es arbitrary: d rule: build_dict.induct) (auto split: sum.splits if_splits)

lemma box_row_player_name:
  "build_dict (box_row_entries fl row link team nm) = Inr d \<Longrightarrow> player_name_of d = Some (PStr nm)"
  unfolding player_name_of_def
  by (erule build_dict_lookup) (simp add: box_row_entries_def)

lemma advanced_row_player_name:
  "build_dict (advanced_row_entries fl row link team nm) = Inr d \<Longrightarrow>
   player_name_of d = Some (PStr nm)"
  unfolding player_name_of_def
  by (erule build_dict_lookup) (simp add: advanced_row_entries_def)

subsection \<open>The rows that are kept\<close>

lemma box_rows_loop_names:
  "box_rows_loop fl link team rows = Inr rs \<Longrightarrow>
   map player_name_of rs = map (\<lambda>n. Some (PStr n)) (kept_names box_keeps rows)"
proof (induction rows arbitrary: rs)
  case Nil
  then show ?case by (simp add: kept_names_def)
next
  case (Cons row rows)
  show ?case
  proof (cases "box_keeps row")
    case False
    then have "box_rows_loop fl link team (row # rows) = box_rows_loop fl link team rows"
      by (auto simp: box_keeps_def advanced_keeps_def identity_text_def Let_def split: option.splits)
    with Cons show ?thesis using False by (simp add: kept_names_def)
  next
    case True
    then obtain nm where nm: "find_data_stat row ''player'' = Some nm"
      and ok: "get_text nm \<noteq> []" "\<not> py_in ''Totals'' (get_text nm)"
      and nt: "\<not> has_class row ''thead''" and cells: "find_all_cells row \<noteq> []"
      by (auto simp: box_keeps_def advanced_keeps_def identity_text_def split: option.splits)
    from Cons.prems nm ok nt cells obtain d ds where
      d: "build_dict (box_row_entries fl row link team (get_text nm)) = Inr d"
      and ds: "box_rows_loop fl link team rows = Inr ds" and rs: "rs = d # ds"
      by (auto simp: Let_def split: sum.splits)
    have "kept_names box_keeps (row # rows) = get_text nm # kept_names box_keeps rows"
      using True nm by (simp add: kept_names_def identity_text_def)
    with Cons.IH[OF ds] box_row_player_name[OF d] rs show ?thesis by simp
  qed
qed

lemma advanced_rows_loop_names:
  "advanced_rows_loop fl link team rows = Inr rs \<Longrightarrow>
   map player_name_of rs = map (\<lambda>n. Some (PStr n)) (kept_names advanced_keeps rows)"
proof (induction rows arbitrary: rs)
  case Nil
  then show ?case by (simp add: kept_names_def)
next
  case (Cons row rows)
  show ?case
  proof (cases "advanced_keeps row")
    case False
    then have "advanced_rows_loop fl link team (row # rows) = advanced_rows_loop fl link team rows"
      by (auto simp: advanced_keeps_def identity_text_def Let_def split: option.splits)
    with Cons show ?thesis using False by (simp add: kept_names_def)
  next
    case True
    then obtain nm where nm: "find_data_stat row ''player'' = Some nm"
      and ok: "get_text nm \<noteq> []" "\<not> py_in ''Totals'' (get_text nm)"
      and nt: "\<not> has_class row ''thead''"
      by (auto simp: advanced_keeps_def identity_text_def split: option.splits)
    from Cons.prems nm ok nt obtain d ds where
      d: "build_dict (advanced_row_entries fl row link team (get_text nm)) = Inr d"
      and ds: "advanced_rows_loop fl link team rows = Inr ds" and rs: "rs = d # ds"
      by (auto simp: Let_def split: sum.splits)
    have "kept_names advanced_keeps (row # rows) = get_text nm # kept_names advanced_keeps rows"
      using True nm by (simp add: kept_names_def identity_text_def)
    with Cons.IH[OF ds] advanced_row_player_name[OF d] rs show ?thesis by simp
  qed
qed

lemma kept_names_advanced_ok:
  "n \<in> set (kept_names advanced_keeps rows) \<Longrightarrow> n \<noteq> [] \<and> \<not> py_in ''Totals'' n"
  by (induction rows)
     (auto simp: kept_names_def advanced_keeps_def split: option.splits if_splits)

lemma kept_names_box_ok:
  "n \<in> set (kept_names box_keeps rows) \<Longrightarrow> n \<noteq> [] \<and> \<not> py_in ''Totals'' n"
  by (induction rows)
     (auto simp: kept_names_def box_keeps_def advanced_keeps_def split: option.splits if_splits)

lemma names_from_kept:
  assumes "map player_name_of rs = map (\<lambda>n. Some (PStr n)) ns" and "r \<in> set rs"
  shows "\<exists>n \<in> set ns. player_name_of r = Some (PStr n)"
proof -
  from assms(2) have "player_name_of r \<in> set (map player_name_of rs)" by simp
  with assms(1) show ?thesis by auto
qed

text \<open>
  C1. Whenever one of the two row extractors returns, the player names of the returned
  records are, in order, the identity texts of exactly the body rows that are kept: the
  rows without the class \<^verbatim>\<open>thead\<close> whose \<^verbatim>\<open>data-stat="player"\<close> cell exists and has a text
  that is not empty and does not contain \<^verbatim>\<open>Totals\<close> (and, for the basic extractor, that
  have a cell at all). So no returned record has an empty name or a name with \<^verbatim>\<open>Totals\<close>
  in it.
\<close>

theorem box_score_rows_identity:
  "(parse_box_score_table fl soup link team = Inr rs \<longrightarrow>
      map player_name_of rs = map (\<lambda>n. Some (PStr n)) (kept_names box_keeps (body_rows soup)) \<and>
      (\<forall>r \<in> set rs. \<exists>n. player_name_of r = Some (PStr n) \<and> n \<noteq> [] \<and> \<not> py_in ''Totals'' n)) \<and>
   (parse_advanced_box_score_table fl soup link team = Inr rs' \<longrightarrow>
      map player_name_of rs' =
        map (\<lambda>n. Some (PStr n)) (kept_names advanced_keeps (body_rows soup)) \<and>
      (\<forall>r \<in> set rs'. \<exists>n. player_name_of r = Some (PStr n) \<and> n \<noteq> [] \<and> \<not> py_in ''Totals'' n))"
proof (intro conjI impI)
  assume a: "parse_box_score_table fl soup link team = Inr rs"
  show names: "map player_name_of rs =
      map (\<lambda>n. Some (PStr n)) (kept_names box_keeps (body_rows soup))"
  proof (cases "find_tag soup ''tbody''")
    case None
    with a show ?thesis by (simp add: parse_box_score_table_def body_rows_def kept_names_def)
  next
    case (Some tbody)
    with a show ?thesis
      by (simp add: parse_box_score_table_def body_rows_def box_rows_loop_names)
  qed
  show "\<forall>r \<in> set rs. \<exists>n. player_name_of r = Some (PStr n) \<and> n \<noteq> [] \<and> \<not> py_in ''Totals'' n"
    using names_from_kept[OF names] kept_names_box_ok by blast
next
  assume a: "parse_advanced_box_score_table fl soup link team = Inr rs'"
  show names: "map player_name_of rs' =
      map (\<lambda>n. Some (PStr n)) (kept_names advanced_keeps (body_rows soup))"
  proof (cases "find_tag soup ''tbody''")
    case None
    with a show ?thesis
      by (simp add: parse_advanced_box_score_table_def body_rows_def kept_names_def)
  next
    case (Some tbody)
    with a show ?thesis
      by (simp add: parse_advanced_box_score_table_def body_rows_def advanced_rows_loop_names)
  qed
  show "\<forall>r \<in> set rs'. \<exists>n. player_name_of r = Some (PStr n) \<and> n \<noteq> [] \<and> \<not> py_in ''Totals'' n"
    using names_from_kept[OF names] kept_names_advanced_ok by blast
qed

theorem box_score_rows_identity_witness:
  "parse_box_score_table example_float example_box_table example_link ''Boston Celtics''
     = Inr example_rows \<and>
   parse_advanced_box_score_table example_float example_box_table example_link ''Boston Celtics''
     = Inr example_advanced_rows \<and>
   length (body_rows example_box_table) = 6 \<and>
   map player_name_of example_rows = [Some (PStr ''Jayson Tatum''), Some (PStr ''Sam Hauser'')] \<and>
   map player_name_of example_advanced_rows =
     map (\<lambda>n. Some (PStr n)) (kept_names advanced_keeps (body_rows example_box_table))"
proof -
  have b: "parse_box_score_table example_float example_box_table example_link ''Boston Celtics''
      = Inr example_rows"
    by code_simp
  have a: "parse_advanced_box_score_table example_float example_box_table example_link
      ''Boston Celtics'' = Inr example_advanced_rows"
    by code_simp
  have k: "kept_names box_keeps (body_rows example_box_table) = [''Jayson Tatum'', ''Sam Hauser'']"
    by code_simp
  have n: "length (body_rows example_box_table) = 6"
    by code_simp
  from box_score_rows_identity
    [of example_float example_box_table example_link "''Boston Celtics''" example_rows
        example_advanced_rows]
    a b k n
  show ?thesis by simp
qed

subsection \<open>Defaults of the coercions\<close>

lemma int_stat_blank: "blank_cell row key \<Longrightarrow> int_stat row key = Inr (PInt 0)"
  by (auto simp: blank_cell_def int_stat_def split: option.splits)

lemma float_stat_blank:
  "blank_cell row key \<Longrightarrow>
   float_stat fl row key =
     Inr (case find_data_stat row key of None \<Rightarrow> PInt 0 | Some c \<Rightarrow> PFloat (Finite 0))"
  by (auto simp: blank_cell_def float_stat_def split: option.splits)

lemma box_int_entries:
  "(col, key) \<in> set int_columns \<Longrightarrow>
   map_of (box_row_entries fl row link team nm) col = Some (int_stat row key)"
  unfolding int_columns_def box_row_entries_def
  by (simp, elim disjE conjE; simp)

lemma box_float_entries:
  "(col, key) \<in> set float_columns \<Longrightarrow>
   map_of (box_row_entries fl row link team nm) col = Some (float_stat fl row key)"
  unfolding float_columns_def box_row_entries_def
  by (simp, elim disjE conjE; simp)

lemma box_mp_entry:
  "map_of (box_row_entries fl row link team nm) ''mp'' = Some (Inr (text_stat row ''mp''))"
  by (simp add: box_row_entries_def)

lemma box_rows_loop_records:
  "box_rows_loop fl link team rows = Inr rs \<Longrightarrow>
   list_all2 (\<lambda>row d. \<exists>nm. identity_text row = Some nm \<and>
                build_dict (box_row_entries fl row link team nm) = Inr d)
     (filter box_keeps rows) rs"
proof (induction rows arbitrary: rs)
  case Nil
  then show ?case by simp
next
  case (Cons row rows)
  show ?case
  proof (cases "box_keeps row")
    case False
    then have "box_rows_loop fl link team (row # rows) = box_rows_loop fl link team rows"
      by (auto simp: box_keeps_def advanced_keeps_def identity_text_def Let_def split: option.splits)
    with Cons show ?thesis using False by simp
  next
    case True
    then obtain nm where nm: "find_data_stat row ''player'' = Some nm"
      and ok: "get_text nm \<noteq> []" "\<not> py_in ''Totals'' (get_text nm)"
      and nt: "\<not> has_class row ''thead''" and cells: "find_all_cells row \<noteq> []"
      by (auto simp: box_keeps_def advanced_keeps_def identity_text_def split: option.splits)
    from Cons.prems nm ok nt cells obtain d ds where
      d: "build_dict (box_row_entries fl row link team (get_text nm)) = Inr d"
      and ds: "box_rows_loop fl link team rows = Inr ds" and rs: "rs = d # ds"
      by (auto simp: Let_def split: sum.splits)
    from nm have "identity_text row = Some (get_text nm)" by (simp add: identity_text_def)
    with Cons.IH[OF ds] d rs True show ?thesis by simp
  qed
qed

lemma record_defaults:
  assumes d: "build_dict (box_row_entries fl row link team nm) = Inr d"
  shows "defaults_hold fl row d"
proof -
  have i: "int_stat row key = Inr (PInt 0) \<and> map_of d col = Some (PInt 0)"
    if "(col, key) \<in> set int_columns" "blank_cell row key" for col key
    using build_dict_lookup[OF d, of col "PInt 0"] box_int_entries[OF that(1), of fl row link team nm]
      int_stat_blank[OF that(2)] by simp
  have f: "\<exists>v. float_stat fl row key = Inr v \<and> map_of d col = Some v \<and> py_num_eq v (PFloat (Finite 0))"
    if "(col, key) \<in> set float_columns" "blank_cell row key" for col key
  proof -
    let ?v = "case find_data_stat row key of None \<Rightarrow> PInt 0 | Some c \<Rightarrow> PFloat (Finite 0)"
    have "float_stat fl row key = Inr ?v" by (rule float_stat_blank[OF that(2)])
    moreover from this have "map_of d col = Some ?v"
      using build_dict_lookup[OF d, of col ?v] box_float_entries[OF that(1), of fl row link team nm]
      by simp
    moreover have "py_num_eq ?v (PFloat (Finite 0))" by (simp split: option.splits)
    ultimately show ?thesis by blast
  qed
  have t: "\<exists>v. map_of d ''threep_pct'' = Some v \<and> py_num_eq v (PFloat (Finite 0))"
    if "find_data_stat row ''fg3_pct'' = None"
  proof -
    from that have "blank_cell row ''fg3_pct''" by (simp add: blank_cell_def)
    moreover have "(''threep_pct'', ''fg3_pct'') \<in> set float_columns" by (simp add: float_columns_def)
    ultimately show ?thesis using f by blast
  qed
  have m: "map_of d ''mp'' =
       Some (case find_data_stat row ''mp'' of None \<Rightarrow> PNone | Some c \<Rightarrow> PStr (get_text c))"
    using build_dict_lookup[OF d box_mp_entry] by (simp add: text_stat_def)
  from i f t m show ?thesis unfolding defaults_hold_def by blast
qed

text \<open>
  C2. In every record that \<^verbatim>\<open>parse_box_score_table\<close> returns, made from a kept row: a
  numeric field whose cell is absent or has an empty text is coerced without an error, to
  \<^verbatim>\<open>0\<close> for the integer columns and to a number equal to \<^verbatim>\<open>0.0\<close> for the float columns
  (the integer \<^verbatim>\<open>0\<close> without a cell, \<^verbatim>\<open>float(0)\<close> for an empty one); without a
  \<^verbatim>\<open>data-stat="fg3_pct"\<close> cell, \<^verbatim>\<open>threep_pct\<close> equals \<^verbatim>\<open>0.0\<close>; and \<^verbatim>\<open>mp\<close> is the text of its
  cell, or \<^verbatim>\<open>None\<close> when there is no cell.
\<close>

theorem box_row_defaults:
  assumes "parse_box_score_table fl soup link team = Inr rs"
  shows "list_all2 (defaults_hold fl) (filter box_keeps (body_rows soup)) rs"
proof (cases "find_tag soup ''tbody''")
  case None
  with assms show ?thesis by (simp add: parse_box_score_table_def body_rows_def)
next
  case (Some tbody)
  with assms have "box_rows_loop fl link team (body_rows soup) = Inr rs"
    by (simp add: parse_box_score_table_def body_rows_def)
  from box_rows_loop_records[OF this] show ?thesis
    by (rule list_all2_mono) (auto intro: record_defaults)
qed

theorem box_row_defaults_witness:
  "parse_box_score_table example_float example_box_table example_link ''Boston Celtics''
     = Inr example_rows \<and>
   list_all2 (defaults_hold example_float) (filter box_keeps (body_rows example_box_table))
     example_rows \<and>
   length (filter box_keeps (body_rows example_box_table)) = 2 \<and>
   find_data_stat (filter box_keeps (body_rows example_box_table) ! 1) ''fg3_pct'' = None \<and>
   map_of (example_rows ! 1) ''threep_pct'' = Some (PInt 0) \<and>
   py_num_eq (PInt 0) (PFloat (Finite 0)) \<and>
   blank_cell (filter box_keeps (body_rows example_box_table) ! 1) ''ft_pct'' \<and>
   map_of (example_rows ! 1) ''ft_pct'' = Some (PFloat (Finite 0)) \<and>
   map_of (example_rows ! 1) ''mp'' = Some PNone \<and>
   map_of (example_rows ! 0) ''mp'' = Some (PStr ''30:18'')"
proof -
  have b: "parse_box_score_table example_float example_box_table example_link ''Boston Celtics''
      = Inr example_rows"
    by code_simp
  have n: "length (filter box_keeps (body_rows example_box_table)) = 2"
    by code_simp
  have c: "find_data_stat (filter box_keeps (body_rows example_box_table) ! 1) ''fg3_pct'' = None"
    by code_simp
  have e: "blank_cell (filter box_keeps (body_rows example_box_table) ! 1) ''ft_pct''"
    by code_simp
  have v: "map_of (example_rows ! 1) ''threep_pct'' = Some (PInt 0)"
    "map_of (example_rows ! 1) ''ft_pct'' = Some (PFloat (Finite 0))"
    "map_of (example_rows ! 1) ''mp'' = Some PNone"
    "map_of (example_rows ! 0) ''mp'' = Some (PStr ''30:18'')"
    by (simp_all add: example_rows_def)
  from box_row_defaults[OF b] b n c e v show ?thesis by simp
qed

section \<open>The players table and the profile URLs (scrape\_bball\_ref.py, data-base-creator.py)\<close>

text \<open>
  A row of the table \<^verbatim>\<open>players\<close>: the key columns and the URL (the season statistics
  columns play no part here). \<open>None\<close> is SQL \<^verbatim>\<open>NULL\<close>; \<^verbatim>\<open>name\<close> and \<^verbatim>\<open>team\<close> are declared
  \<^verbatim>\<open>NOT NULL\<close>.
\<close>

record player_row =
  p_id :: nat
  p_name :: string
  p_team :: string
  p_position :: "string option"
  p_height :: "string option"
  p_weight :: "pyfloat option"
  p_birth_date :: "string option"
  p_birth_country :: "string option"
  p_experience :: "string option"
  p_college :: "string option"
  p_url :: "string option"

subsection \<open>construct\_url\<close>

text \<open>The local variables \<^verbatim>\<open>folder\<close>, \<^verbatim>\<open>last_part\<close> and \<^verbatim>\<open>first_part\<close>. The names come
  from \<^verbatim>\<open>split()\<close> and are not empty, so \<^verbatim>\<open>last_name[0]\<close> is \<^verbatim>\<open>last_name[:1]\<close>.\<close>

definition folder :: "string \<Rightarrow> string" where
  "folder last_name = py_lower (take 1 last_name)"

definition last_part :: "string \<Rightarrow> string \<Rightarrow> string" where
  "last_part first_name last_name =
     py_lower (if length last_name \<ge> 5 then take 5 last_name
               else last_name @ take (5 - length last_name) first_name)"

definition first_part :: "string \<Rightarrow> string" where
  "first_part first_name = py_lower (take 2 first_name)"

definition candidate_url :: "string \<Rightarrow> string \<Rightarrow> nat \<Rightarrow> string" where
  "candidate_url first_name last_name sfx =
     ''https://www.basketball-reference.com/players/'' @ folder last_name @ ''/'' @
     last_part first_name last_name @ first_part first_name @ fmt_02d sfx @ ''.html''"

text \<open>The \<^verbatim>\<open>while True\<close> loop, entered with the current \<^verbatim>\<open>suffix\<close> (here \<open>sfx\<close>).\<close>

function url_loop :: "string \<Rightarrow> string \<Rightarrow> string set \<Rightarrow> nat \<Rightarrow> string option" where
  "url_loop first_name last_name existing_urls sfx =
     (if candidate_url first_name last_name sfx \<notin> existing_urls
      then Some (candidate_url first_name last_name sfx)
      else if sfx + 1 > 99 then None
      else url_loop first_name last_name existing_urls (sfx + 1))"
  by pat_completeness auto
termination
  by (relation "measure (\<lambda>(f, l, e, sfx). 100 - sfx)") auto

declare url_loop.simps [simp del]

definition construct_url :: "string \<Rightarrow> string set \<Rightarrow> string option" where
  "construct_url player_name existing_urls =
     (let parts = py_split player_name in
      if length parts < 2 then None
      else url_loop (hd parts) (last parts) existing_urls 1)"

subsection \<open>generate\_player\_urls\<close>

text \<open>\<^verbatim>\<open>UPDATE players SET url = ? WHERE id = ?\<close>\<close>

definition update_url :: "player_row list \<Rightarrow> nat \<Rightarrow> string \<Rightarrow> player_row list" where
  "update_url db player_id u = map (\<lambda>r. if p_id r = player_id then r\<lparr>p_url := Some u\<rparr> else r) db"

text \<open>The loop over the players without a URL; the state is the table and the set
  \<^verbatim>\<open>existing_urls\<close>. A URL is used when it is truthy: not \<^verbatim>\<open>None\<close> and not empty.\<close>

fun urls_loop ::
  "(nat \<times> string) list \<Rightarrow> player_row list \<Rightarrow> string set \<Rightarrow> player_row list \<times> string set"
where
  "urls_loop [] db existing_urls = (db, existing_urls)"
| "urls_loop ((player_id, player_name) # players) db existing_urls =
     (case construct_url player_name existing_urls of
        None \<Rightarrow> urls_loop players db existing_urls
      | Some u \<Rightarrow>
          if u = [] then urls_loop players db existing_urls
          else urls_loop players (update_url db player_id u) (insert u existing_urls))"

text \<open>\<^verbatim>\<open>SELECT url FROM players WHERE url IS NOT NULL\<close> as a set, and
  \<^verbatim>\<open>SELECT id, name FROM players WHERE url IS NULL\<close>.\<close>

definition assigned_urls :: "player_row list \<Rightarrow> string set" where
  "assigned_urls db = set (List.map_filter p_url db)"

definition players_without_url :: "player_row list \<Rightarrow> (nat \<times> string) list" where
  "players_without_url db = map (\<lambda>r. (p_id r, p_name r)) (filter (\<lambda>r. p_url r = None) db)"

definition generate_player_urls :: "player_row list \<Rightarrow> player_row list" where
  "generate_player_urls db = fst (urls_loop (players_without_url db) db (assigned_urls db))"

text \<open>
  What a run may do to the table: the rows stay in place and only their URL column can
  differ; a row that had a URL keeps it; a URL given to a row that had none is not in
  the set \<open>ex\<close>; and two rows that had none do not get the same URL.
\<close>

definition fills_null_urls :: "string set \<Rightarrow> player_row list \<Rightarrow> player_row list \<Rightarrow> bool" where
  "fills_null_urls ex db db' =
     (length db' = length db \<and>
      (\<forall>i < length db. (db' ! i)\<lparr>p_url := None\<rparr> = (db ! i)\<lparr>p_url := None\<rparr>) \<and>
      (\<forall>i < length db. p_url (db ! i) \<noteq> None \<longrightarrow> db' ! i = db ! i) \<and>
      (\<forall>i < length db. \<forall>u. p_url (db ! i) = None \<and> p_url (db' ! i) = Some u \<longrightarrow> u \<notin> ex) \<and>
      (\<forall>i < length db. \<forall>j < length db. \<forall>u.
          i \<noteq> j \<and> p_url (db ! i) = None \<and> p_url (db ! j) = None \<and> p_url (db' ! i) = Some u
          \<longrightarrow> p_url (db' ! j) \<noteq> Some u))"

subsection \<open>An example table of players\<close>

definition example_player :: "nat \<Rightarrow> string \<Rightarrow> string \<Rightarrow> string option \<Rightarrow> player_row" where
  "example_player i nm tm u =
     \<lparr>p_id = i, p_name = nm, p_team = tm, p_position = Some ''SF'', p_height = Some ''6-9'',
      p_weight = Some (Finite 250), p_birth_date = None, p_birth_country = None,
      p_experience = Some ''5'', p_college = None, p_url = u\<rparr>"

definition example_players :: "player_row list" where
  "example_players =
     [example_player 1 ''LeBron James'' ''LAL''
        (Some ''https://www.basketball-reference.com/players/j/jamesle01.html''),
      example_player 2 ''Lebron James'' ''CLE'' None,
      example_player 3 ''Nene'' ''DEN'' None,
      example_player 4 ''Bol Bol'' ''PHO'' None,
      example_player 5 ''Leon de James'' ''MIA'' None]"

definition example_players_after :: "player_row list" where
  "example_players_after =
     [example_player 1 ''LeBron James'' ''LAL''
        (Some ''https://www.basketball-reference.com/players/j/jamesle01.html''),
      example_player 2 ''Lebron James'' ''CLE''
        (Some ''https://www.basketball-reference.com/players/j/jamesle02.html''),
      example_player 3 ''Nene'' ''DEN'' None,
      example_player 4 ''Bol Bol'' ''PHO''
        (Some ''https://www.basketball-reference.com/players/b/bolbobo01.html''),
      example_player 5 ''Leon de James'' ''MIA''
        (Some ''https://www.basketball-reference.com/players/j/jamesle03.html'')]"


subsection \<open>Facts about construct\_url\<close>

lemma split_run_nonempty: "p \<in> set (split_run cur s) \<Longrightarrow> p \<noteq> []"
  by (induction s arbitrary: cur) (auto split: if_splits)

lemma py_split_nonempty: "p \<in> set (py_split s) \<Longrightarrow> p \<noteq> []"
  unfolding py_split_def by (rule split_run_nonempty)

lemma py_split_hd_last:
  assumes "2 \<le> length (py_split s)"
  shows "hd (py_split s) \<noteq> [] \<and> last (py_split s) \<noteq> []"
proof -
  from assms have ne: "py_split s \<noteq> []" by auto
  then have "hd (py_split s) \<in> set (py_split s)" "last (py_split s) \<in> set (py_split s)" by simp_all
  then show ?thesis using py_split_nonempty by blast
qed

lemma last_part_take: "last_part f l = py_lower (take 5 (l @ f))"
  by (simp add: last_part_def)

lemma length_py_lower [simp]: "length (py_lower s) = length s"
  by (simp add: py_lower_def)

lemma folder_hd: "l \<noteq> [] \<Longrightarrow> folder l = [lower_char (hd l)]"
  by (cases l) (simp_all add: folder_def py_lower_def)

lemma str_of_nat_small: "n < 10 \<Longrightarrow> str_of_nat n = [digit_char n]"
  by (simp add: str_of_nat.simps)

lemma length_fmt_02d: "n < 100 \<Longrightarrow> length (fmt_02d n) = 2"
proof (cases "n < 10")
  case True
  then show ?thesis by (simp add: fmt_02d_def str_of_nat_small)
next
  case False
  assume "n < 100"
  with False have "n div 10 < 10" by simp
  with False have "str_of_nat n = [digit_char (n div 10), digit_char (n mod 10)]"
    by (simp add: str_of_nat.simps[of n] str_of_nat_small)
  then show ?thesis by (simp add: fmt_02d_def)
qed

lemma url_loop_find:
  "sfx < 100 \<Longrightarrow>
   url_loop f l ex sfx =
     map_option (candidate_url f l) (List.find (\<lambda>k. candidate_url f l k \<notin> ex) [sfx..<100])"
proof (induction f l ex sfx rule: url_loop.induct)
  case (1 f l ex sfx)
  have u: "[sfx..<100] = sfx # [Suc sfx..<100]" using "1.prems" by (simp add: upt_conv_Cons)
  show ?case
  proof (cases "candidate_url f l sfx \<notin> ex")
    case True
    then show ?thesis by (simp add: url_loop.simps[of f l ex sfx] u)
  next
    case False
    show ?thesis
    proof (cases "sfx + 1 > 99")
      case True
      with "1.prems" have "sfx = 99" by simp
      with False show ?thesis by (simp add: url_loop.simps[of f l ex 99])
    next
      case b: False
      with False "1.IH" have "url_loop f l ex (sfx + 1) =
        map_option (candidate_url f l) (List.find (\<lambda>k. candidate_url f l k \<notin> ex) [sfx + 1..<100])"
        by simp
      with False b show ?thesis by (simp add: url_loop.simps[of f l ex sfx] u)
    qed
  qed
qed

lemma construct_url_find:
  "2 \<le> length (py_split nm) \<Longrightarrow>
   construct_url nm ex =
     map_option (candidate_url (hd (py_split nm)) (last (py_split nm)))
       (List.find (\<lambda>k. candidate_url (hd (py_split nm)) (last (py_split nm)) k \<notin> ex) [1..<100])"
  by (simp add: construct_url_def Let_def url_loop_find)

lemma construct_url_fresh: "construct_url nm ex = Some u \<Longrightarrow> u \<notin> ex"
proof -
  assume a: "construct_url nm ex = Some u"
  then have "2 \<le> length (py_split nm)" by (auto simp: construct_url_def Let_def split: if_splits)
  from a construct_url_find[OF this, of ex] show ?thesis
    by (auto simp: find_Some_iff)
qed

lemma construct_url_short: "length (py_split nm) < 2 \<Longrightarrow> construct_url nm ex = None"
  by (simp add: construct_url_def)

text \<open>
  C6 (as amended). For a name with at least two parts, with the first and the last part
  as first and last name: the candidate for a counter \<open>k\<close> is the site prefix, the
  lowercased first letter of the last name, a slash, the lowercased first five characters
  of the last name followed by the first name (five characters exactly when the two names
  have five or more together), the lowercased first two characters of the first name (one
  character for a first name of one), the counter on two digits, and \<^verbatim>\<open>.html\<close>.
  \<^verbatim>\<open>construct_url\<close> returns the candidate of the least counter from 1 to 99 that is not
  in the set of URLs, and \<^verbatim>\<open>None\<close> exactly when all 99 are in it; the batch loop then
  goes on with the next player.
\<close>

theorem construct_url_rule:
  assumes "2 \<le> length (py_split player_name)"
  shows "let first_name = hd (py_split player_name); last_name = last (py_split player_name);
             cand = candidate_url first_name last_name in
         first_name \<noteq> [] \<and> last_name \<noteq> [] \<and>
         (\<forall>k. cand k = ''https://www.basketball-reference.com/players/'' @ [lower_char (hd last_name)] @
                  ''/'' @ py_lower (take 5 (last_name @ first_name)) @ py_lower (take 2 first_name) @
                  fmt_02d k @ ''.html'') \<and>
         length (py_lower (take 5 (last_name @ first_name))) = min 5 (length last_name + length first_name) \<and>
         length (py_lower (take 2 first_name)) = min 2 (length first_name) \<and>
         (\<forall>k < 100. length (fmt_02d k) = 2) \<and> fmt_02d 1 = ''01'' \<and>
         construct_url player_name ex = map_option cand (List.find (\<lambda>k. cand k \<notin> ex) [1..<100]) \<and>
         (construct_url player_name ex = None \<longleftrightarrow> (\<forall>k. 1 \<le> k \<and> k \<le> 99 \<longrightarrow> cand k \<in> ex)) \<and>
         (\<forall>pid ps db. construct_url player_name ex = None \<longrightarrow>
             urls_loop ((pid, player_name) # ps) db ex = urls_loop ps db ex)"
proof -
  let ?f = "hd (py_split player_name)" and ?l = "last (py_split player_name)"
  let ?cand = "candidate_url ?f ?l"
  from py_split_hd_last[OF assms] have ne: "?f \<noteq> []" "?l \<noteq> []" by simp_all
  have shape: "\<forall>k. ?cand k = ''https://www.basketball-reference.com/players/'' @ [lower_char (hd ?l)] @
                  ''/'' @ py_lower (take 5 (?l @ ?f)) @ py_lower (take 2 ?f) @
                  fmt_02d k @ ''.html''"
    unfolding candidate_url_def last_part_take first_part_def folder_hd[OF ne(2)] by simp
  have l5: "length (py_lower (take 5 (?l @ ?f))) = min 5 (length ?l + length ?f)"
    by (simp only: length_py_lower length_take length_append min.commute)
  have l2: "length (py_lower (take 2 ?f)) = min 2 (length ?f)"
    by (simp only: length_py_lower length_take min.commute)
  have f2: "\<forall>k < 100. length (fmt_02d k) = 2" by (simp add: length_fmt_02d)
  have f1: "fmt_02d 1 = ''01''" by (simp add: fmt_02d_def str_of_nat_small digit_char_def)
  have c: "construct_url player_name ex = map_option ?cand (List.find (\<lambda>k. ?cand k \<notin> ex) [1..<100])"
    using assms by (rule construct_url_find)
  have none: "construct_url player_name ex = None \<longleftrightarrow> (\<forall>k. 1 \<le> k \<and> k \<le> 99 \<longrightarrow> ?cand k \<in> ex)"
  proof -
    have "construct_url player_name ex = None \<longleftrightarrow> (\<forall>k \<in> set [1..<100]. ?cand k \<in> ex)"
      unfolding c by (auto simp: find_None_iff)
    also have "\<dots> \<longleftrightarrow> (\<forall>k. 1 \<le> k \<and> k \<le> 99 \<longrightarrow> ?cand k \<in> ex)" by auto
    finally show ?thesis .
  qed
  have skip: "\<forall>pid ps db. construct_url player_name ex = None \<longrightarrow>
             urls_loop ((pid, player_name) # ps) db ex = urls_loop ps db ex"
    by simp
  from ne shape l5 l2 f2 f1 c none skip show ?thesis unfolding Let_def by (intro conjI)
qed

theorem construct_url_rule_witness:
  "2 \<le> length (py_split ''LeBron James'') \<and>
   hd (py_split ''LeBron James'') = ''LeBron'' \<and> last (py_split ''LeBron James'') = ''James'' \<and>
   candidate_url ''LeBron'' ''James'' 1 = ''https://www.basketball-reference.com/players/j/jamesle01.html'' \<and>
   construct_url ''LeBron James'' {''https://www.basketball-reference.com/players/j/jamesle01.html''}
     = map_option (candidate_url ''LeBron'' ''James'')
         (List.find (\<lambda>k. candidate_url ''LeBron'' ''James'' k
            \<notin> {''https://www.basketball-reference.com/players/j/jamesle01.html''}) [1..<100]) \<and>
   construct_url ''LeBron James'' {''https://www.basketball-reference.com/players/j/jamesle01.html''}
     = Some ''https://www.basketball-reference.com/players/j/jamesle02.html''"
proof -
  have s: "2 \<le> length (py_split ''LeBron James'')" by code_simp
  have h: "hd (py_split ''LeBron James'') = ''LeBron''" "last (py_split ''LeBron James'') = ''James''"
    by code_simp+
  have c: "candidate_url ''LeBron'' ''James'' 1 = ''https://www.basketball-reference.com/players/j/jamesle01.html''"
    by code_simp
  have r: "construct_url ''LeBron James'' {''https://www.basketball-reference.com/players/j/jamesle01.html''}
     = Some ''https://www.basketball-reference.com/players/j/jamesle02.html''"
    by code_simp
  from construct_url_rule[OF s, of "{''https://www.basketball-reference.com/players/j/jamesle01.html''}"]
  have "construct_url ''LeBron James'' {''https://www.basketball-reference.com/players/j/jamesle01.html''}
     = map_option (candidate_url ''LeBron'' ''James'')
         (List.find (\<lambda>k. candidate_url ''LeBron'' ''James'' k
            \<notin> {''https://www.basketball-reference.com/players/j/jamesle01.html''}) [1..<100])"
    unfolding Let_def h by blast
  with s h c r show ?thesis by simp
qed


text \<open>The stem has four characters for the name \<^verbatim>\<open>Yi Li\<close>, and the first-name suffix one
  character for \<^verbatim>\<open>J Smith\<close>.\<close>

theorem construct_url_short_names_counterexample:
  "2 \<le> length (py_split ''Yi Li'') \<and>
   hd (py_split ''Yi Li'') = ''Yi'' \<and> last (py_split ''Yi Li'') = ''Li'' \<and>
   last_part ''Yi'' ''Li'' = ''liyi'' \<and> length (last_part ''Yi'' ''Li'') \<noteq> 5 \<and>
   construct_url ''Yi Li'' {} = Some ''https://www.basketball-reference.com/players/l/liyiyi01.html'' \<and>
   2 \<le> length (py_split ''J Smith'') \<and>
   hd (py_split ''J Smith'') = ''J'' \<and> first_part ''J'' = ''j'' \<and> length (first_part ''J'') \<noteq> 2 \<and>
   construct_url ''J Smith'' {} = Some ''https://www.basketball-reference.com/players/s/smithj01.html''"
  by code_simp

subsection \<open>Facts about generate\_player\_urls\<close>

lemma update_url_length [simp]: "length (update_url db pid u) = length db"
  by (simp add: update_url_def)

lemma update_url_nth:
  "i < length db \<Longrightarrow>
   update_url db pid u ! i = (if p_id (db ! i) = pid then (db ! i)\<lparr>p_url := Some u\<rparr> else db ! i)"
  by (simp add: update_url_def)

lemma update_url_ids [simp]: "map p_id (update_url db pid u) = map p_id db"
  by (simp add: update_url_def comp_def)

text \<open>One step of the loop either leaves the state or updates the rows of one id.\<close>

lemma urls_loop_step:
  "urls_loop ((pid, nm) # ps) db ex =
     (case construct_url nm ex of
        None \<Rightarrow> urls_loop ps db ex
      | Some u \<Rightarrow> if u = [] then urls_loop ps db ex
                  else urls_loop ps (update_url db pid u) (insert u ex))"
  by simp

lemma fills_null_urls_refl: "fills_null_urls ex db db"
  by (auto simp: fills_null_urls_def)

lemma fills_null_urls_step:
  assumes d: "distinct (map p_id db)"
    and nulls: "\<forall>r \<in> set db. p_id r = pid \<longrightarrow> p_url r = None"
    and u: "u \<notin> ex"
    and rest: "fills_null_urls (insert u ex) (update_url db pid u) db'"
  shows "fills_null_urls ex db db'"
proof -
  let ?db1 = "update_url db pid u"
  have len: "length db' = length db" using rest by (simp add: fills_null_urls_def)
  have nth1: "?db1 ! i = (if p_id (db ! i) = pid then (db ! i)\<lparr>p_url := Some u\<rparr> else db ! i)"
    if "i < length db" for i using that by (rule update_url_nth)
  have A: "(db' ! i)\<lparr>p_url := None\<rparr> = (?db1 ! i)\<lparr>p_url := None\<rparr>" if "i < length db" for i
    using rest that by (simp add: fills_null_urls_def)
  have B: "db' ! i = ?db1 ! i" if "i < length db" "p_url (?db1 ! i) \<noteq> None" for i
    using rest that by (simp add: fills_null_urls_def)
  have C: "v \<notin> insert u ex" if "i < length db" "p_url (?db1 ! i) = None" "p_url (db' ! i) = Some v" for i v
    using rest that by (simp add: fills_null_urls_def)
  have D: "p_url (db' ! j) \<noteq> Some v"
    if "i < length db" "j < length db" "i \<noteq> j" "p_url (?db1 ! i) = None" "p_url (?db1 ! j) = None"
       "p_url (db' ! i) = Some v" for i j v
    using rest that unfolding fills_null_urls_def update_url_length by blast
  have ids: "p_id (db ! i) \<noteq> p_id (db ! j)" if "i < length db" "j < length db" "i \<noteq> j" for i j
  proof -
    from that have "i < length (map p_id db)" "j < length (map p_id db)" by simp_all
    from nth_eq_iff_index_eq[OF d this] that show ?thesis by simp
  qed
  have null_at: "p_url (db ! i) = None" if "i < length db" "p_id (db ! i) = pid" for i
    using nulls that by auto
  have a: "(db' ! i)\<lparr>p_url := None\<rparr> = (db ! i)\<lparr>p_url := None\<rparr>" if "i < length db" for i
    using A[OF that] nth1[OF that] by (simp split: if_splits)
  have b: "db' ! i = db ! i" if "i < length db" "p_url (db ! i) \<noteq> None" for i
  proof -
    have "p_id (db ! i) \<noteq> pid" using null_at[OF that(1)] that(2) by auto
    with nth1[OF that(1)] have "?db1 ! i = db ! i" by simp
    with B[OF that(1)] that(2) show ?thesis by simp
  qed
  have at_pid: "p_url (db' ! i) = Some u" if "i < length db" "p_id (db ! i) = pid" for i
  proof -
    from nth1[OF that(1)] that(2) have "?db1 ! i = (db ! i)\<lparr>p_url := Some u\<rparr>" by simp
    with B[OF that(1)] show ?thesis by simp
  qed
  have c: "v \<notin> ex" if "i < length db" "p_url (db ! i) = None" "p_url (db' ! i) = Some v" for i v
  proof (cases "p_id (db ! i) = pid")
    case True
    with at_pid that u show ?thesis by simp
  next
    case False
    with nth1[OF that(1)] that(2) have "p_url (?db1 ! i) = None" by simp
    from C[OF that(1) this that(3)] show ?thesis by simp
  qed
  have e: "p_url (db' ! j) \<noteq> Some v"
    if "i < length db" "j < length db" "i \<noteq> j" "p_url (db ! i) = None" "p_url (db ! j) = None"
       "p_url (db' ! i) = Some v" for i j v
  proof (cases "p_id (db ! i) = pid")
    case True
    with at_pid that have v: "v = u" by simp
    from True ids[OF that(1,2,3)] have "p_id (db ! j) \<noteq> pid" by simp
    with nth1[OF that(2)] that(5) have n: "p_url (?db1 ! j) = None" by simp
    show ?thesis
    proof
      assume "p_url (db' ! j) = Some v"
      from C[OF that(2) n this] v show False by simp
    qed
  next
    case False
    with nth1[OF that(1)] that(4) have ni: "p_url (?db1 ! i) = None" by simp
    show ?thesis
    proof (cases "p_id (db ! j) = pid")
      case True
      with at_pid that have "p_url (db' ! j) = Some u" by simp
      moreover from C[OF that(1) ni that(6)] have "v \<noteq> u" by simp
      ultimately show ?thesis by simp
    next
      case False
      with nth1[OF that(2)] that(5) have "p_url (?db1 ! j) = None" by simp
      from D[OF that(1,2,3) ni this that(6)] show ?thesis .
    qed
  qed
  from len a b c e show ?thesis unfolding fills_null_urls_def by blast
qed

lemma urls_loop_fills:
  assumes "distinct (map p_id db)"
    and "\<forall>r \<in> set db. p_id r \<in> fst ` set ps \<longrightarrow> p_url r = None"
    and "distinct (map fst ps)"
  shows "fills_null_urls ex db (fst (urls_loop ps db ex))"
  using assms
proof (induction ps arbitrary: db ex)
  case Nil
  then show ?case by (simp add: fills_null_urls_refl)
next
  case (Cons p ps)
  obtain pid nm where p: "p = (pid, nm)" by (cases p)
  have keep: "fills_null_urls ex db (fst (urls_loop ps db ex))"
    using Cons.IH[of db ex] Cons.prems by auto
  show ?case
  proof (cases "construct_url nm ex")
    case None
    with keep p show ?thesis by simp
  next
    case (Some u)
    show ?thesis
    proof (cases "u = []")
      case True
      with Some keep p show ?thesis by simp
    next
      case False
      let ?db1 = "update_url db pid u"
      have fresh: "u \<notin> ex" using Some by (rule construct_url_fresh)
      have d1: "distinct (map p_id ?db1)" using Cons.prems(1) by simp
      have pid_out: "pid \<notin> fst ` set ps" using Cons.prems(3) p by auto
      have n1: "\<forall>r \<in> set ?db1. p_id r \<in> fst ` set ps \<longrightarrow> p_url r = None"
      proof (intro ballI impI)
        fix r assume r: "r \<in> set ?db1" and i: "p_id r \<in> fst ` set ps"
        from r obtain r0 where r0: "r0 \<in> set db"
          and eq: "r = (if p_id r0 = pid then r0\<lparr>p_url := Some u\<rparr> else r0)"
          by (auto simp: update_url_def)
        from eq have "p_id r = p_id r0" by (simp split: if_splits)
        with i pid_out have ne: "p_id r0 \<noteq> pid" and "p_id r0 \<in> fst ` set ps" by auto
        with Cons.prems(2) r0 have "p_url r0 = None" by auto
        with eq ne show "p_url r = None" by simp
      qed
      have "fills_null_urls (insert u ex) ?db1 (fst (urls_loop ps ?db1 (insert u ex)))"
        using Cons.IH[OF d1 n1] Cons.prems(3) by simp
      moreover have "\<forall>r \<in> set db. p_id r = pid \<longrightarrow> p_url r = None"
        using Cons.prems(2) p by auto
      ultimately have "fills_null_urls ex db (fst (urls_loop ps ?db1 (insert u ex)))"
        using fills_null_urls_step[OF Cons.prems(1) _ fresh] by blast
      with Some False p show ?thesis by simp
    qed
  qed
qed

lemma players_without_url_fst:
  "map fst (players_without_url db) = map p_id (filter (\<lambda>r. p_url r = None) db)"
  by (simp add: players_without_url_def comp_def)

lemma pending_are_null:
  assumes "distinct (map p_id db)"
  shows "\<forall>r \<in> set db. p_id r \<in> fst ` set (players_without_url db) \<longrightarrow> p_url r = None"
proof (intro ballI impI)
  fix r assume r: "r \<in> set db" and "p_id r \<in> fst ` set (players_without_url db)"
  then obtain r' where r': "r' \<in> set db" "p_url r' = None" "p_id r' = p_id r"
    by (auto simp: players_without_url_def)
  from assms r r'(1,3) have "r' = r" by (meson distinct_map inj_onD)
  with r'(2) show "p_url r = None" by simp
qed

lemma pending_distinct:
  "distinct (map p_id db) \<Longrightarrow> distinct (map fst (players_without_url db))"
  by (simp add: players_without_url_fst distinct_map_filter)


text \<open>
  C7. On a table whose ids are distinct (\<^verbatim>\<open>id\<close> is the primary key),
  \<^verbatim>\<open>generate_player_urls\<close> changes nothing but URL columns that were \<^verbatim>\<open>NULL\<close>: a row with
  a URL keeps it, every URL newly given differs from all URLs assigned before the run,
  and no two rows are given the same new URL.
\<close>

theorem generate_player_urls_fresh:
  assumes "distinct (map p_id db)"
  shows "fills_null_urls (assigned_urls db) db (generate_player_urls db)"
  unfolding generate_player_urls_def
  using urls_loop_fills[OF assms pending_are_null[OF assms] pending_distinct[OF assms]] .

theorem generate_player_urls_fresh_witness:
  "distinct (map p_id example_players) \<and>
   generate_player_urls example_players = example_players_after \<and>
   fills_null_urls (assigned_urls example_players) example_players example_players_after"
proof -
  have d: "distinct (map p_id example_players)" by code_simp
  have g: "generate_player_urls example_players = example_players_after" by code_simp
  from generate_player_urls_fresh[OF d] d g show ?thesis by simp
qed


lemma urls_loop_append:
  "urls_loop (xs @ ys) db ex = (case urls_loop xs db ex of (db1, ex1) \<Rightarrow> urls_loop ys db1 ex1)"
proof (induction xs arbitrary: db ex)
  case Nil
  then show ?case by simp
next
  case (Cons p xs)
  obtain pid nm where p: "p = (pid, nm)" by (cases p)
  show ?case unfolding p using Cons.IH by (simp split: option.splits)
qed

lemma urls_loop_untouched:
  assumes "i < length db"
    and "\<forall>p \<in> set ps. fst p = p_id (db ! i) \<longrightarrow> length (py_split (snd p)) < 2"
  shows "fst (urls_loop ps db ex) ! i = db ! i"
  using assms
proof (induction ps arbitrary: db ex)
  case Nil
  then show ?case by simp
next
  case (Cons p ps)
  obtain pid nm where p: "p = (pid, nm)" by (cases p)
  have keep: "fst (urls_loop ps db ex) ! i = db ! i"
    using Cons.IH[of db ex] Cons.prems by simp
  show ?case
  proof (cases "construct_url nm ex")
    case None
    with keep p show ?thesis by simp
  next
    case (Some u)
    show ?thesis
    proof (cases "u = []")
      case True
      with Some keep p show ?thesis by simp
    next
      case False
      from Some have "\<not> length (py_split nm) < 2"
        by (auto simp: construct_url_def Let_def split: if_splits)
      with Cons.prems(2) p have ne: "p_id (db ! i) \<noteq> pid" by auto
      let ?db1 = "update_url db pid u"
      from ne Cons.prems(1) have same: "?db1 ! i = db ! i" by (simp add: update_url_nth)
      have "fst (urls_loop ps ?db1 (insert u ex)) ! i = ?db1 ! i"
      proof (rule Cons.IH)
        show "i < length ?db1" using Cons.prems(1) by simp
        show "\<forall>p \<in> set ps. fst p = p_id (?db1 ! i) \<longrightarrow> length (py_split (snd p)) < 2"
          using Cons.prems(2) same by simp
      qed
      with same Some False p show ?thesis by simp
    qed
  qed
qed

lemma generate_untouched:
  assumes d: "distinct (map p_id db)" and i: "i < length db"
    and short: "length (py_split (p_name (db ! i))) < 2"
  shows "generate_player_urls db ! i = db ! i"
  unfolding generate_player_urls_def
proof (rule urls_loop_untouched[OF i], intro ballI impI)
  fix p assume p: "p \<in> set (players_without_url db)" and eq: "fst p = p_id (db ! i)"
  from p obtain r where r: "r \<in> set db" "p = (p_id r, p_name r)"
    by (auto simp: players_without_url_def)
  from r(1) obtain j where j: "j < length db" "db ! j = r" by (auto simp: in_set_conv_nth)
  from i j(1) have "i < length (map p_id db)" "j < length (map p_id db)" by simp_all
  from nth_eq_iff_index_eq[OF d this] eq r(2) j i have "i = j" by simp
  with j r(2) short show "length (py_split (snd p)) < 2" by simp
qed


text \<open>
  C10. For a name with fewer than two parts \<^verbatim>\<open>construct_url\<close> returns \<^verbatim>\<open>None\<close>; the loop
  over the players gives the same result as without that player (no update, and the
  players after it are processed); and, the ids being distinct, the row of such a player
  is the same after \<^verbatim>\<open>generate_player_urls\<close> as before, so a \<^verbatim>\<open>NULL\<close> URL stays \<^verbatim>\<open>NULL\<close>.
\<close>

theorem short_name_keeps_null_url:
  assumes "length (py_split player_name) < 2"
  shows "construct_url player_name ex = None \<and>
         urls_loop (ps1 @ (pid, player_name) # ps2) db ex = urls_loop (ps1 @ ps2) db ex \<and>
         (distinct (map p_id db) \<and> i < length db \<and> p_name (db ! i) = player_name
            \<longrightarrow> generate_player_urls db ! i = db ! i)"
proof (intro conjI impI)
  show n: "construct_url player_name ex = None" using assms by (rule construct_url_short)
  have "construct_url player_name ex' = None" for ex' using assms by (rule construct_url_short)
  then show "urls_loop (ps1 @ (pid, player_name) # ps2) db ex = urls_loop (ps1 @ ps2) db ex"
    by (simp add: urls_loop_append split: prod.splits)
next
  assume "distinct (map p_id db) \<and> i < length db \<and> p_name (db ! i) = player_name"
  with assms show "generate_player_urls db ! i = db ! i"
    using generate_untouched[of db i] by simp
qed


theorem short_name_keeps_null_url_witness:
  "length (py_split ''Nene'') < 2 \<and> construct_url ''Nene'' {} = None \<and>
   p_name (example_players ! 2) = ''Nene'' \<and>
   generate_player_urls example_players ! 2 = example_players ! 2 \<and>
   p_url (generate_player_urls example_players ! 2) = None"
proof -
  have s: "length (py_split ''Nene'') < 2" by code_simp
  have d: "distinct (map p_id example_players)" by code_simp
  have n: "p_name (example_players ! 2) = ''Nene''" "(2::nat) < length example_players"
    "p_url (example_players ! 2) = None"
    by (simp_all add: example_players_def example_player_def)
  from short_name_keeps_null_url[OF s, where ex = "{}" and db = example_players and i = 2] s d n
  show ?thesis by simp
qed


section \<open>Locating a table (scrape\_bball\_ref.py, scrape\_bball\_ref-game-logs.py)\<close>

text \<open>
  The parser applied to the text of a comment, \<^verbatim>\<open>BeautifulSoup(comment, "html.parser")\<close>, is
  the parameter \<open>parse\<close>. \<^verbatim>\<open>soup.find_all(string=lambda text: isinstance(text, Comment))\<close>
  gives the comments of the document in document order.
\<close>

fun comment_text :: "node \<Rightarrow> string list" where
  "comment_text (Comment s) = [s]"
| "comment_text (Tag n a cs) = []"
| "comment_text (NavigableString s) = []"

definition comments_of :: "node \<Rightarrow> string list" where
  "comments_of soup = concat (map comment_text (descendants soup))"

text \<open>The loop over the comments, left at the first comment that holds the table.\<close>

fun first_in_comments :: "(string \<Rightarrow> node) \<Rightarrow> string \<Rightarrow> string \<Rightarrow> string list \<Rightarrow> node option" where
  "first_in_comments parse nm ident [] = None"
| "first_in_comments parse nm ident (c # cs) =
     (case find_by_id (parse c) nm ident of
        Some t \<Rightarrow> Some t
      | None \<Rightarrow> first_in_comments parse nm ident cs)"

text \<open>\<^verbatim>\<open>soup.find("table", id=ident)\<close>, then the comments when the live tree has no such table.\<close>

definition locate_table :: "(string \<Rightarrow> node) \<Rightarrow> node \<Rightarrow> string \<Rightarrow> node option" where
  "locate_table parse soup ident =
     (case find_by_id soup ''table'' ident of
        Some t \<Rightarrow> Some t
      | None \<Rightarrow> first_in_comments parse ''table'' ident (comments_of soup))"

text \<open>The document in which every comment is replaced by the nodes that its text parses
  to (the replaced nodes are left as they are).\<close>

fun contents_of :: "node \<Rightarrow> node list" where
  "contents_of (Tag n a cs) = cs"
| "contents_of (NavigableString s) = []"
| "contents_of (Comment s) = []"

fun uncomment :: "(string \<Rightarrow> node) \<Rightarrow> node \<Rightarrow> node list" where
  "uncomment parse (Tag n a cs) = [Tag n a (concat (map (uncomment parse) cs))]"
| "uncomment parse (NavigableString s) = [NavigableString s]"
| "uncomment parse (Comment s) = contents_of (parse s)"

fun unwrap_comments :: "(string \<Rightarrow> node) \<Rightarrow> node \<Rightarrow> node" where
  "unwrap_comments parse (Tag n a cs) = Tag n a (concat (map (uncomment parse) cs))"
| "unwrap_comments parse (NavigableString s) = NavigableString s"
| "unwrap_comments parse (Comment s) = Comment s"

section \<open>The schedule (scrape\_bball\_ref-game-logs.py)\<close>

record gamelog_row =
  g_season_year :: int
  g_month :: string
  g_game_date :: string
  g_start_et :: string
  g_visitor_team :: string
  g_visitor_pts :: int
  g_home_team :: string
  g_home_pts :: int
  g_box_score_link :: "string option"
  g_overtime :: string
  g_attendance :: string
  g_notes :: string

definition schedule_url :: "int \<Rightarrow> string \<Rightarrow> string" where
  "schedule_url year mth =
     ''https://www.basketball-reference.com/leagues/NBA_'' @ py_str year @ ''_games-'' @ mth @ ''.html''"

text \<open>
  \<^verbatim>\<open>find_all("tr", class_=lambda x: x != "thead")\<close>: the function is applied to \<^verbatim>\<open>None\<close> for a
  row without the attribute; otherwise the row matches when the function holds of one of
  the class tokens or of the tokens joined by spaces.
\<close>

fun join_space :: "string list \<Rightarrow> string" where
  "join_space [] = []"
| "join_space [x] = x"
| "join_space (x # y # ys) = x @ '' '' @ join_space (y # ys)"

definition class_not_thead :: "node \<Rightarrow> bool" where
  "class_not_thead t =
     (case get_attr t ''class'' of
        None \<Rightarrow> True
      | Some v \<Rightarrow> list_ex (\<lambda>x. x \<noteq> ''thead'') (py_split v) \<or> join_space (py_split v) \<noteq> ''thead'')"

definition schedule_rows :: "node \<Rightarrow> node list" where
  "schedule_rows tbody = filter (\<lambda>r. has_name ''tr'' r \<and> class_not_thead r) (descendants tbody)"

text \<open>The fields read from one row, before the table is consulted; \<open>None\<close> is a
  \<^verbatim>\<open>continue\<close> (no cells, or fewer than 9). The points are still text.\<close>

record game_fields =
  f_game_date :: string
  f_start_et :: string
  f_visitor_team :: string
  f_visitor_pts :: string
  f_home_team :: string
  f_home_pts :: string
  f_box_score_link :: "string option"
  f_overtime :: string
  f_attendance :: string
  f_notes :: string

definition or_zero :: "string \<Rightarrow> string" where
  "or_zero t = (if t = [] then ''0'' else t)"

definition link_of_cell :: "node \<Rightarrow> string option" where
  "link_of_cell c =
     (case find_tag c ''a'' of
        None \<Rightarrow> None
      | Some link_tag \<Rightarrow>
          Some (''https://www.basketball-reference.com'' @
                (case get_attr link_tag ''href'' of None \<Rightarrow> [] | Some href \<Rightarrow> href)))"

definition read_game_fields :: "node \<Rightarrow> game_fields option" where
  "read_game_fields row =
     (let cells = find_all_cells row in
      if cells = [] then None
      else if length cells < 9 then None
      else Some \<lparr>f_game_date = get_text (cells ! 0),
                 f_start_et = get_text (cells ! 1),
                 f_visitor_team = get_text (cells ! 2),
                 f_visitor_pts = or_zero (get_text (cells ! 3)),
                 f_home_team = get_text (cells ! 4),
                 f_home_pts = or_zero (get_text (cells ! 5)),
                 f_box_score_link = link_of_cell (cells ! 6),
                 f_overtime = get_text (cells ! 7),
                 f_attendance = (if length cells > 8 then get_text (cells ! 8) else []),
                 f_notes = (if length cells > 9 then get_text (cells ! 9) else [])\<rparr>)"

text \<open>\<^verbatim>\<open>SELECT id FROM gamelogs WHERE game_date = ? AND visitor_team = ? AND home_team = ?\<close>
  finds a row.\<close>

definition game_exists :: "gamelog_row list \<Rightarrow> game_fields \<Rightarrow> bool" where
  "game_exists db f =
     list_ex (\<lambda>r. g_game_date r = f_game_date f \<and> g_visitor_team r = f_visitor_team f \<and>
                   g_home_team r = f_home_team f) db"

text \<open>The \<^verbatim>\<open>INSERT\<close>: the two \<^verbatim>\<open>int\<close> conversions of its parameters may raise.\<close>

definition insert_game :: "int \<Rightarrow> string \<Rightarrow> game_fields \<Rightarrow> gamelog_row list \<Rightarrow> error + gamelog_row list" where
  "insert_game year mth f db =
     (case py_int (f_visitor_pts f) of
        None \<Rightarrow> Inl ValueError
      | Some vp \<Rightarrow>
          (case py_int (f_home_pts f) of
             None \<Rightarrow> Inl ValueError
           | Some hp \<Rightarrow>
               Inr (db @ [\<lparr>g_season_year = year, g_month = py_capitalize mth,
                            g_game_date = f_game_date f, g_start_et = f_start_et f,
                            g_visitor_team = f_visitor_team f, g_visitor_pts = vp,
                            g_home_team = f_home_team f, g_home_pts = hp,
                            g_box_score_link = f_box_score_link f, g_overtime = f_overtime f,
                            g_attendance = f_attendance f, g_notes = f_notes f\<rparr>])))"

text \<open>The loop over the rows, on the table as the connection sees it. An error leaves the
  function before \<^verbatim>\<open>conn.commit()\<close>, so \<open>Inl\<close> stands for a table that is not changed.\<close>

fun games_loop :: "int \<Rightarrow> string \<Rightarrow> node list \<Rightarrow> gamelog_row list \<Rightarrow> error + gamelog_row list" where
  "games_loop year mth [] db = Inr db"
| "games_loop year mth (row # rows) db =
     (case read_game_fields row of
        None \<Rightarrow> games_loop year mth rows db
      | Some f \<Rightarrow>
          if game_exists db f then games_loop year mth rows db
          else (case insert_game year mth f db of
                  Inl e \<Rightarrow> Inl e
                | Inr db' \<Rightarrow> games_loop year mth rows db'))"

text \<open>\<open>fetch\<close> is the request and the parse of the answer, \<open>None\<close> when the request fails.\<close>

definition scrape_month_schedule_to_db ::
  "(string \<Rightarrow> node option) \<Rightarrow> (string \<Rightarrow> node) \<Rightarrow> int \<Rightarrow> string \<Rightarrow> gamelog_row list
   \<Rightarrow> error + gamelog_row list"
where
  "scrape_month_schedule_to_db fetch parse year mth db =
     (case fetch (schedule_url year mth) of
        None \<Rightarrow> Inr db
      | Some soup \<Rightarrow>
          (case locate_table parse soup ''schedule'' of
             None \<Rightarrow> Inr db
           | Some schedule_table \<Rightarrow>
               (case find_tag schedule_table ''tbody'' of
                  None \<Rightarrow> Inr db
                | Some tbody \<Rightarrow>
                    if schedule_rows tbody = [] then Inr db
                    else games_loop year mth (schedule_rows tbody) db)))"

subsection \<open>The schedule page of the example\<close>

definition td :: "string \<Rightarrow> node" where
  "td txt = Tag ''td'' [] (if txt = [] then [] else [NavigableString txt])"

definition example_game_row :: node where
  "example_game_row =
     Tag ''tr'' []
       [Tag ''th'' [(''data-stat'', ''date_game'')] [NavigableString ''Tue, Oct 22, 2024''],
        td ''7:30p'', td ''New York Knicks'', td ''109'', td ''Boston Celtics'', td ''132'',
        Tag ''td'' [(''data-stat'', ''box_score_text'')]
          [Tag ''a'' [(''href'', ''/boxscores/202410220BOS.html'')] [NavigableString ''Box Score'']],
        td [], td ''19156'', td []]"

definition example_schedule_page :: node where
  "example_schedule_page =
     Tag ''[document]'' []
       [Tag ''html'' []
          [Tag ''body'' []
             [Tag ''table'' [(''id'', ''schedule'')]
                [Tag ''thead'' [] [Tag ''tr'' [] [Tag ''th'' [] [NavigableString ''Date'']]],
                 Tag ''tbody'' [] [example_game_row]]]]]"

definition example_game_fields :: game_fields where
  "example_game_fields =
     \<lparr>f_game_date = ''Tue, Oct 22, 2024'', f_start_et = ''7:30p'',
      f_visitor_team = ''New York Knicks'', f_visitor_pts = ''109'',
      f_home_team = ''Boston Celtics'', f_home_pts = ''132'',
      f_box_score_link = Some ''https://www.basketball-reference.com/boxscores/202410220BOS.html'',
      f_overtime = [], f_attendance = ''19156'', f_notes = []\<rparr>"

definition example_game :: "int \<Rightarrow> string \<Rightarrow> gamelog_row" where
  "example_game year mth =
     \<lparr>g_season_year = year, g_month = py_capitalize mth,
      g_game_date = ''Tue, Oct 22, 2024'', g_start_et = ''7:30p'',
      g_visitor_team = ''New York Knicks'', g_visitor_pts = 109,
      g_home_team = ''Boston Celtics'', g_home_pts = 132,
      g_box_score_link = Some ''https://www.basketball-reference.com/boxscores/202410220BOS.html'',
      g_overtime = [], g_attendance = ''19156'', g_notes = []\<rparr>"

subsection \<open>The example row is ingested once\<close>

lemma example_page_table:
  "find_by_id example_schedule_page ''table'' ''schedule'' =
     Some (Tag ''table'' [(''id'', ''schedule'')]
                [Tag ''thead'' [] [Tag ''tr'' [] [Tag ''th'' [] [NavigableString ''Date'']]],
                 Tag ''tbody'' [] [example_game_row]])"
  by code_simp

lemma example_page_tbody:
  "find_tag (Tag ''table'' [(''id'', ''schedule'')]
                [Tag ''thead'' [] [Tag ''tr'' [] [Tag ''th'' [] [NavigableString ''Date'']]],
                 Tag ''tbody'' [] [example_game_row]]) ''tbody''
   = Some (Tag ''tbody'' [] [example_game_row])"
  by code_simp

lemma example_page_rows: "schedule_rows (Tag ''tbody'' [] [example_game_row]) = [example_game_row]"
  by code_simp

lemma example_row_fields: "read_game_fields example_game_row = Some example_game_fields"
  by code_simp

lemma example_points: "py_int ''109'' = Some 109" "py_int ''132'' = Some 132"
  by code_simp+

lemma example_insert:
  "insert_game year mth example_game_fields db = Inr (db @ [example_game year mth])"
  by (simp add: insert_game_def example_game_fields_def example_game_def example_points)

lemma example_exists_after: "game_exists (db @ [example_game year mth]) example_game_fields"
  by (simp add: game_exists_def example_game_fields_def example_game_def)

text \<open>
  C4. A schedule page whose body holds the one row of the example: for a table without a
  row of that date and those teams, the run appends exactly one row, with 132 home points,
  109 visitor points and the link made of the site origin and the \<^verbatim>\<open>href\<close>; a second run
  on the result finds the row by date, visitor and home team and inserts nothing.
\<close>

theorem schedule_example_ingested_once:
  assumes "fetch (schedule_url year mth) = Some example_schedule_page"
    and "\<not> game_exists db example_game_fields"
  shows "scrape_month_schedule_to_db fetch parse year mth db = Inr (db @ [example_game year mth]) \<and>
         g_home_pts (example_game year mth) = 132 \<and>
         g_visitor_pts (example_game year mth) = 109 \<and>
         g_box_score_link (example_game year mth) =
           Some ''https://www.basketball-reference.com/boxscores/202410220BOS.html'' \<and>
         scrape_month_schedule_to_db fetch parse year mth (db @ [example_game year mth]) =
           Inr (db @ [example_game year mth])"
proof -
  have loc: "locate_table parse example_schedule_page ''schedule'' =
     Some (Tag ''table'' [(''id'', ''schedule'')]
                [Tag ''thead'' [] [Tag ''tr'' [] [Tag ''th'' [] [NavigableString ''Date'']]],
                 Tag ''tbody'' [] [example_game_row]])"
    by (simp add: locate_table_def example_page_table)
  have run: "scrape_month_schedule_to_db fetch parse year mth d =
      games_loop year mth [example_game_row] d" for d
    by (simp add: scrape_month_schedule_to_db_def assms(1) loc example_page_tbody example_page_rows)
  have first: "games_loop year mth [example_game_row] db = Inr (db @ [example_game year mth])"
    using assms(2) by (simp add: example_row_fields example_insert)
  have again: "games_loop year mth [example_game_row] (db @ [example_game year mth]) =
      Inr (db @ [example_game year mth])"
    using example_exists_after[of db year mth] by (simp add: example_row_fields)
  have r1: "scrape_month_schedule_to_db fetch parse year mth db = Inr (db @ [example_game year mth])"
    unfolding run by (rule first)
  have r2: "scrape_month_schedule_to_db fetch parse year mth (db @ [example_game year mth]) =
      Inr (db @ [example_game year mth])"
    unfolding run by (rule again)
  have f: "g_home_pts (example_game year mth) = 132" "g_visitor_pts (example_game year mth) = 109"
    "g_box_score_link (example_game year mth) =
       Some ''https://www.basketball-reference.com/boxscores/202410220BOS.html''"
    by (simp_all add: example_game_def)
  from r1 r2 f show ?thesis by (intro conjI)
qed

theorem schedule_example_ingested_once_witness:
  "scrape_month_schedule_to_db (\<lambda>u. Some example_schedule_page) (\<lambda>s. Tag [] [] []) 2025 ''october'' []
     = Inr [example_game 2025 ''october''] \<and>
   g_month (example_game 2025 ''october'') = ''October'' \<and>
   g_home_pts (example_game 2025 ''october'') = 132 \<and>
   scrape_month_schedule_to_db (\<lambda>u. Some example_schedule_page) (\<lambda>s. Tag [] [] []) 2025 ''october''
     [example_game 2025 ''october''] = Inr [example_game 2025 ''october'']"
proof -
  have n: "\<not> game_exists [] example_game_fields" by (simp add: game_exists_def)
  have m: "g_month (example_game 2025 ''october'') = ''October''" by code_simp
  from schedule_example_ingested_once
    [of "\<lambda>u. Some example_schedule_page" 2025 "''october''" "[]" "\<lambda>s. Tag [] [] []", OF refl n] m
  show ?thesis by simp
qed

section \<open>The box-score drivers (boxscorescraper.py, advancedboxscorescraper.py)\<close>

text \<open>
  The two files differ in the suffix of the table ids, the suffix taken off the caption,
  the row extractor and the columns; the functions below take these four as parameters.
\<close>

text \<open>\<^verbatim>\<open>tbl.get("id", "")\<close>\<close>

definition table_id :: "node \<Rightarrow> string" where
  "table_id tbl = (case get_attr tbl ''id'' of None \<Rightarrow> [] | Some v \<Rightarrow> v)"

text \<open>The tables of \<^verbatim>\<open>soup.find_all("table")\<close> that the loop does not skip. Only the live
  tree is searched.\<close>

definition is_box_table :: "string \<Rightarrow> node \<Rightarrow> bool" where
  "is_box_table id_suffix tbl =
     (has_name ''table'' tbl \<and> prefix ''box-'' (table_id tbl) \<and> suffix id_suffix (table_id tbl))"

definition box_tables :: "string \<Rightarrow> node \<Rightarrow> node list" where
  "box_tables id_suffix soup = filter (is_box_table id_suffix) (descendants soup)"

definition team_name_of :: "string \<Rightarrow> node \<Rightarrow> string" where
  "team_name_of caption_suffix tbl =
     (case find_tag tbl ''caption'' of
        None \<Rightarrow> table_id tbl
      | Some caption \<Rightarrow> py_replace caption_suffix [] (get_text caption))"

fun tables_loop ::
  "(node \<Rightarrow> string \<Rightarrow> string \<Rightarrow> error + row_dict list) \<Rightarrow> string \<Rightarrow> string \<Rightarrow> node list
   \<Rightarrow> error + row_dict list"
where
  "tables_loop extract caption_suffix link [] = Inr []"
| "tables_loop extract caption_suffix link (tbl # tbls) =
     (case extract tbl link (team_name_of caption_suffix tbl) of
        Inl e \<Rightarrow> Inl e
      | Inr data_rows \<Rightarrow>
          (case tables_loop extract caption_suffix link tbls of
             Inl e \<Rightarrow> Inl e
           | Inr results \<Rightarrow> Inr (data_rows @ results)))"

text \<open>\<open>fetch\<close> is the request and the parse of the answer; a failed request is caught and
  gives no rows. The extraction runs outside the \<^verbatim>\<open>try\<close>.\<close>

definition scrape_single ::
  "(node \<Rightarrow> string \<Rightarrow> string \<Rightarrow> error + row_dict list) \<Rightarrow> string \<Rightarrow> string \<Rightarrow>
   (string \<Rightarrow> node option) \<Rightarrow> string \<Rightarrow> error + row_dict list"
where
  "scrape_single extract id_suffix caption_suffix fetch link =
     (if link = [] then Inr []
      else (case fetch link of
              None \<Rightarrow> Inr []
            | Some soup \<Rightarrow> tables_loop extract caption_suffix link (box_tables id_suffix soup)))"

definition scrape_single_box_score ::
  "(string \<Rightarrow> node option) \<Rightarrow> (string \<Rightarrow> pyfloat option) \<Rightarrow> string \<Rightarrow> error + row_dict list"
where
  "scrape_single_box_score fetch fl link =
     scrape_single (parse_box_score_table fl) ''-game-basic'' '' Basic and Advanced Stats'' fetch link"

definition scrape_single_box_score_advanced ::
  "(string \<Rightarrow> node option) \<Rightarrow> (string \<Rightarrow> pyfloat option) \<Rightarrow> string \<Rightarrow> error + row_dict list"
where
  "scrape_single_box_score_advanced fetch fl link =
     scrape_single (parse_advanced_box_score_table fl) ''-game-advanced'' '' Advanced Stats'' fetch link"

subsection \<open>Storing the rows\<close>

text \<open>
  A stored row is the tuple of the values bound to the \<^verbatim>\<open>INSERT OR IGNORE\<close>, in the order of
  the columns; \<^verbatim>\<open>r[key]\<close> on a dictionary without the key is a \<^verbatim>\<open>KeyError\<close>. The first three
  columns carry the \<^verbatim>\<open>UNIQUE\<close> constraint; as in SQL, \<^verbatim>\<open>NULL\<close> conflicts with nothing.
\<close>

datatype store_error = KeyError

definition box_columns :: "string list" where
  "box_columns =
     [''box_score_link'', ''team'', ''player_name'', ''starter'', ''mp'', ''fg'', ''fga'',
      ''fg_pct'', ''threep'', ''threepa'', ''threep_pct'', ''ft'', ''fta'', ''ft_pct'', ''orb'',
      ''drb'', ''trb'', ''ast'', ''stl'', ''blk'', ''tov'', ''pf'', ''pts'', ''plus_minus'']"

definition advanced_columns :: "string list" where
  "advanced_columns =
     [''box_score_link'', ''team'', ''player_name'', ''starter'', ''mp'', ''ts_pct'', ''efg_pct'',
      ''fg3a_per_fga_pct'', ''fta_per_fga_pct'', ''orb_pct'', ''drb_pct'', ''trb_pct'',
      ''ast_pct'', ''stl_pct'', ''blk_pct'', ''tov_pct'', ''usg_pct'', ''ortg'', ''drtg'']"

fun row_values :: "string list \<Rightarrow> row_dict \<Rightarrow> pyval list option" where
  "row_values [] r = Some []"
| "row_values (c # cs) r =
     (case map_of r c of
        None \<Rightarrow> None
      | Some v \<Rightarrow> (case row_values cs r of None \<Rightarrow> None | Some vs \<Rightarrow> Some (v # vs)))"

definition unique_conflict :: "pyval list list \<Rightarrow> pyval list \<Rightarrow> bool" where
  "unique_conflict db vals =
     (PNone \<notin> set (take 3 vals) \<and> list_ex (\<lambda>x. take 3 x = take 3 vals) db)"

definition insert_or_ignore :: "pyval list list \<Rightarrow> pyval list \<Rightarrow> pyval list list" where
  "insert_or_ignore db vals = (if unique_conflict db vals then db else db @ [vals])"

text \<open>The loop of \<^verbatim>\<open>store_box_score_rows\<close>; an error leaves it before the commit.\<close>

fun store_rows :: "string list \<Rightarrow> row_dict list \<Rightarrow> pyval list list \<Rightarrow> store_error + pyval list list" where
  "store_rows cols [] db = Inr db"
| "store_rows cols (r # rs) db =
     (case row_values cols r of
        None \<Rightarrow> Inl KeyError
      | Some vals \<Rightarrow> store_rows cols rs (insert_or_ignore db vals))"

definition store_box_score_rows :: "row_dict list \<Rightarrow> pyval list list \<Rightarrow> store_error + pyval list list" where
  "store_box_score_rows rows db = store_rows box_columns rows db"

definition store_advanced_box_score_rows ::
  "row_dict list \<Rightarrow> pyval list list \<Rightarrow> store_error + pyval list list"
where
  "store_advanced_box_score_rows rows db = store_rows advanced_columns rows db"

subsection \<open>The loop over the links\<close>

text \<open>\<^verbatim>\<open>SELECT DISTINCT box_score_link FROM gamelogs WHERE box_score_link IS NOT NULL\<close>, in the
  order of the first occurrences.\<close>

definition box_score_links :: "gamelog_row list \<Rightarrow> string list" where
  "box_score_links gamelogs = remdups (List.map_filter g_box_score_link gamelogs)"

text \<open>
  The outcome of a driver: the error that ended it, if any, and the table as committed.
  Nothing in the loop catches an error of the extraction or of the store.
\<close>

datatype run_error = Extraction error | Store store_error

fun links_loop ::
  "(string \<Rightarrow> error + row_dict list) \<Rightarrow> (row_dict list \<Rightarrow> pyval list list \<Rightarrow> store_error + pyval list list)
   \<Rightarrow> string list \<Rightarrow> pyval list list \<Rightarrow> run_error option \<times> pyval list list"
where
  "links_loop scrape store [] db = (None, db)"
| "links_loop scrape store (link # links) db =
     (if link = [] then links_loop scrape store links db
      else (case scrape link of
              Inl e \<Rightarrow> (Some (Extraction e), db)
            | Inr rows \<Rightarrow>
                if rows = [] then links_loop scrape store links db
                else (case store rows db of
                        Inl e \<Rightarrow> (Some (Store e), db)
                      | Inr db' \<Rightarrow> links_loop scrape store links db')))"

definition scrape_box_scores_for_all_games ::
  "(string \<Rightarrow> node option) \<Rightarrow> (string \<Rightarrow> pyfloat option) \<Rightarrow> gamelog_row list \<Rightarrow> pyval list list
   \<Rightarrow> run_error option \<times> pyval list list"
where
  "scrape_box_scores_for_all_games fetch fl gamelogs db =
     links_loop (scrape_single_box_score fetch fl) store_box_score_rows (box_score_links gamelogs) db"

definition scrape_advanced_box_scores_for_all_games ::
  "(string \<Rightarrow> node option) \<Rightarrow> (string \<Rightarrow> pyfloat option) \<Rightarrow> gamelog_row list \<Rightarrow> pyval list list
   \<Rightarrow> run_error option \<times> pyval list list"
where
  "scrape_advanced_box_scores_for_all_games fetch fl gamelogs db =
     links_loop (scrape_single_box_score_advanced fetch fl) store_advanced_box_score_rows
       (box_score_links gamelogs) db"

section \<open>The per-game table of a player page (scrape\_bball\_ref.py)\<close>

text \<open>
  \<^verbatim>\<open>get_player_stats\<close> looks for the container \<^verbatim>\<open>div\<close> in the live tree, then in the
  comments whose text holds \<^verbatim>\<open>id="switcher_per_game_stats"\<close>; the table is then searched
  below the container, in its live tree.
\<close>

definition switcher_marker :: string where
  "switcher_marker = ''id='' @ [CHR 0x22] @ ''switcher_per_game_stats'' @ [CHR 0x22]"

fun switcher_in_comments :: "(string \<Rightarrow> node) \<Rightarrow> string list \<Rightarrow> node option" where
  "switcher_in_comments parse [] = None"
| "switcher_in_comments parse (c # cs) =
     (if py_in switcher_marker c then
        (case find_by_id (parse c) ''div'' ''switcher_per_game_stats'' of
           Some d \<Rightarrow> Some d
         | None \<Rightarrow> switcher_in_comments parse cs)
      else switcher_in_comments parse cs)"

definition locate_switcher :: "(string \<Rightarrow> node) \<Rightarrow> node \<Rightarrow> node option" where
  "locate_switcher parse soup =
     (case find_by_id soup ''div'' ''switcher_per_game_stats'' of
        Some d \<Rightarrow> Some d
      | None \<Rightarrow> switcher_in_comments parse (comments_of soup))"

definition locate_per_game_table :: "(string \<Rightarrow> node) \<Rightarrow> node \<Rightarrow> node option" where
  "locate_per_game_table parse soup =
     (case locate_switcher parse soup of
        None \<Rightarrow> None
      | Some switcher_div \<Rightarrow>
          (case find_by_id switcher_div ''div'' ''div_per_game_stats'' of
             None \<Rightarrow> None
           | Some div_per_game \<Rightarrow> find_by_id div_per_game ''table'' ''per_game_stats''))"

subsection \<open>Pages with a table inside a comment\<close>

definition example_box_comment :: string where
  "example_box_comment =
     ''<table id=box-BOS-game-basic><tbody><tr><th data-stat=player>Jayson Tatum</th><td data-stat=pts>37</td></tr></tbody></table>''"

definition example_small_table :: node where
  "example_small_table =
     Tag ''table'' [(''id'', ''box-BOS-game-basic'')]
       [Tag ''tbody'' []
          [Tag ''tr'' [] [cell ''th'' ''player'' ''Jayson Tatum'', cell ''td'' ''pts'' ''37'']]]"

definition example_stats_comment :: string where
  "example_stats_comment =
     ''<table id=per_game_stats><tbody><tr><th>2024-25</th><td>72</td></tr></tbody></table>''"

definition example_stats_table :: node where
  "example_stats_table =
     Tag ''table'' [(''id'', ''per_game_stats'')]
       [Tag ''tbody'' []
          [Tag ''tr'' [] [Tag ''th'' [] [NavigableString ''2024-25''], td ''72'']]]"

text \<open>The parser on the two comment texts above, and on nothing else.\<close>

definition example_parse :: "string \<Rightarrow> node" where
  "example_parse s =
     (if s = example_box_comment then Tag ''[document]'' [] [example_small_table]
      else if s = example_stats_comment then Tag ''[document]'' [] [example_stats_table]
      else Tag ''[document]'' [] [])"

definition example_commented_box_page :: node where
  "example_commented_box_page =
     Tag ''[document]'' []
       [Tag ''div'' [(''id'', ''all_box-BOS-game-basic'')] [Comment example_box_comment]]"

definition example_commented_stats_page :: node where
  "example_commented_stats_page =
     Tag ''[document]'' []
       [Tag ''div'' [(''id'', ''switcher_per_game_stats'')]
          [Tag ''div'' [(''id'', ''div_per_game_stats'')] [Comment example_stats_comment]]]"

section \<open>Roster ingestion (scrape\_bball\_ref.py, data-base-creator.py)\<close>

definition TEAM_ABBRS :: "string list" where
  "TEAM_ABBRS =
     [''ATL'', ''BOS'', ''BRK'', ''CHO'', ''CHI'', ''CLE'', ''DAL'', ''DEN'', ''DET'', ''GSW'',
      ''HOU'', ''IND'', ''LAC'', ''LAL'', ''MEM'', ''MIA'', ''MIL'', ''MIN'', ''NOP'', ''NYK'',
      ''OKC'', ''ORL'', ''PHI'', ''PHO'', ''POR'', ''SAC'', ''SAS'', ''TOR'', ''UTA'', ''WAS'']"

definition roster_url :: "string \<Rightarrow> string" where
  "roster_url tm = ''https://www.basketball-reference.com/teams/'' @ tm @ ''/2025.html''"

text \<open>\<^verbatim>\<open>roster_table.find("thead").find("tr").find_all("th")\<close> and
  \<^verbatim>\<open>roster_table.find("tbody").find_all("tr")\<close>: a \<^verbatim>\<open>find\<close> that returns \<^verbatim>\<open>None\<close> makes the
  next call an \<^verbatim>\<open>AttributeError\<close>.\<close>

definition roster_headers :: "node \<Rightarrow> error + string list" where
  "roster_headers tbl =
     (case find_tag tbl ''thead'' of
        None \<Rightarrow> Inl AttributeError
      | Some thead \<Rightarrow>
          (case find_tag thead ''tr'' of
             None \<Rightarrow> Inl AttributeError
           | Some tr \<Rightarrow> Inr (map get_text (find_all_tag tr ''th''))))"

definition roster_rows :: "node \<Rightarrow> error + node list" where
  "roster_rows tbl =
     (case find_tag tbl ''tbody'' of
        None \<Rightarrow> Inl AttributeError
      | Some tbody \<Rightarrow> Inr (find_all_tag tbody ''tr''))"

text \<open>\<^verbatim>\<open>player_data = dict(zip(headers, row_data)); player_data["Team"] = team\<close>: of two equal
  headers the later one stays.\<close>

definition player_data_of :: "string list \<Rightarrow> string list \<Rightarrow> string \<Rightarrow> (string \<Rightarrow> string option)" where
  "player_data_of headers row_data tm = (map_of (rev (zip headers row_data)))(''Team'' \<mapsto> tm)"

text \<open>\<^verbatim>\<open>float(player_data.get("Wt", 0) or 0)\<close>\<close>

definition weight_of :: "(string \<Rightarrow> pyfloat option) \<Rightarrow> (string \<Rightarrow> string option) \<Rightarrow> error + pyfloat" where
  "weight_of fl player_data =
     (case player_data ''Wt'' of
        None \<Rightarrow> Inr (Finite 0)
      | Some t \<Rightarrow>
          if t = [] then Inr (Finite 0)
          else (case fl t of None \<Rightarrow> Inl ValueError | Some x \<Rightarrow> Inr x))"

text \<open>A float bound to a statement: SQLite stores a NaN as \<^verbatim>\<open>NULL\<close>.\<close>

definition sql_real :: "pyfloat \<Rightarrow> pyfloat option" where
  "sql_real x = (if x = NaN then None else Some x)"

text \<open>\<^verbatim>\<open>column = ?\<close> in a \<^verbatim>\<open>WHERE\<close>: never true when the column or the parameter is \<^verbatim>\<open>NULL\<close>.\<close>

definition sql_eq :: "'a option \<Rightarrow> 'a option \<Rightarrow> bool" where
  "sql_eq column param = (column \<noteq> None \<and> column = param)"

text \<open>The duplicate check of scrape\_bball\_ref.py, on nine columns.\<close>

definition exists_full ::
  "player_row list \<Rightarrow> (string \<Rightarrow> string option) \<Rightarrow> string \<Rightarrow> pyfloat \<Rightarrow> bool"
where
  "exists_full db player_data tm w =
     list_ex (\<lambda>r. sql_eq (Some (p_name r)) (player_data ''Player'') \<and>
                   p_team r = tm \<and>
                   sql_eq (p_position r) (player_data ''Pos'') \<and>
                   sql_eq (p_height r) (player_data ''Ht'') \<and>
                   sql_eq (p_weight r) (sql_real w) \<and>
                   sql_eq (p_birth_date r) (player_data ''Birth Date'') \<and>
                   sql_eq (p_birth_country r) (player_data ''Birth'') \<and>
                   sql_eq (p_experience r) (player_data ''Exp'') \<and>
                   sql_eq (p_college r) (player_data ''College'')) db"

text \<open>The duplicate check of data-base-creator.py, on four columns.\<close>

definition exists_partial :: "player_row list \<Rightarrow> (string \<Rightarrow> string option) \<Rightarrow> bool" where
  "exists_partial db player_data =
     list_ex (\<lambda>r. sql_eq (Some (p_name r)) (player_data ''Player'') \<and>
                   sql_eq (p_height r) (player_data ''Ht'') \<and>
                   sql_eq (p_college r) (player_data ''College'') \<and>
                   sql_eq (p_experience r) (player_data ''Exp'')) db"

text \<open>The \<^verbatim>\<open>INSERT\<close>. The id is \<^verbatim>\<open>AUTOINCREMENT\<close>: above every id of the table (the model
  takes the next one). A \<^verbatim>\<open>NULL\<close> name violates \<^verbatim>\<open>NOT NULL\<close>.\<close>

definition fresh_id :: "player_row list \<Rightarrow> nat" where
  "fresh_id db = Suc (fold max (map p_id db) 0)"

definition new_player :: "nat \<Rightarrow> string \<Rightarrow> (string \<Rightarrow> string option) \<Rightarrow> string \<Rightarrow> pyfloat \<Rightarrow> player_row" where
  "new_player i nm player_data tm w =
     \<lparr>p_id = i, p_name = nm, p_team = tm, p_position = player_data ''Pos'',
      p_height = player_data ''Ht'', p_weight = sql_real w,
      p_birth_date = player_data ''Birth Date'', p_birth_country = player_data ''Birth'',
      p_experience = player_data ''Exp'', p_college = player_data ''College'', p_url = None\<rparr>"

definition insert_player ::
  "player_row list \<Rightarrow> (string \<Rightarrow> string option) \<Rightarrow> string \<Rightarrow> pyfloat \<Rightarrow> error + player_row list"
where
  "insert_player db player_data tm w =
     (case player_data ''Player'' of
        None \<Rightarrow> Inl IntegrityError
      | Some nm \<Rightarrow> Inr (db @ [new_player (fresh_id db) nm player_data tm w]))"

text \<open>One candidate in scrape\_bball\_ref.py: the weight is converted for the parameters of
  the \<^verbatim>\<open>SELECT\<close>.\<close>

definition add_player_full ::
  "(string \<Rightarrow> pyfloat option) \<Rightarrow> player_row list \<Rightarrow> (string \<Rightarrow> string option) \<Rightarrow> string
   \<Rightarrow> error + player_row list"
where
  "add_player_full fl db player_data tm =
     (case weight_of fl player_data of
        Inl e \<Rightarrow> Inl e
      | Inr w \<Rightarrow>
          if exists_full db player_data tm w then Inr db
          else insert_player db player_data tm w)"

text \<open>One candidate in data-base-creator.py: the weight is converted for the \<^verbatim>\<open>INSERT\<close>
  only.\<close>

definition add_player_partial ::
  "(string \<Rightarrow> pyfloat option) \<Rightarrow> player_row list \<Rightarrow> (string \<Rightarrow> string option) \<Rightarrow> string
   \<Rightarrow> error + player_row list"
where
  "add_player_partial fl db player_data tm =
     (if exists_partial db player_data then Inr db
      else (case weight_of fl player_data of
              Inl e \<Rightarrow> Inl e
            | Inr w \<Rightarrow> insert_player db player_data tm w))"

text \<open>The loop over the rows of one roster table, on the table as the connection sees
  it; \<open>add\<close> is one of the two functions above.\<close>

fun roster_rows_loop ::
  "(player_row list \<Rightarrow> (string \<Rightarrow> string option) \<Rightarrow> string \<Rightarrow> error + player_row list) \<Rightarrow>
   string list \<Rightarrow> string \<Rightarrow> node list \<Rightarrow> player_row list \<Rightarrow> error + player_row list"
where
  "roster_rows_loop add headers tm [] db = Inr db"
| "roster_rows_loop add headers tm (row # rows) db =
     (if map get_text (find_all_cells row) = [] then roster_rows_loop add headers tm rows db
      else (case add db (player_data_of headers (map get_text (find_all_cells row)) tm) tm of
              Inl e \<Rightarrow> Inl e
            | Inr db' \<Rightarrow> roster_rows_loop add headers tm rows db'))"

definition ingest_roster_table ::
  "(player_row list \<Rightarrow> (string \<Rightarrow> string option) \<Rightarrow> string \<Rightarrow> error + player_row list) \<Rightarrow>
   string \<Rightarrow> node \<Rightarrow> player_row list \<Rightarrow> error + player_row list"
where
  "ingest_roster_table add tm roster_table db =
     (case roster_headers roster_table of
        Inl e \<Rightarrow> Inl e
      | Inr headers \<Rightarrow>
          (case roster_rows roster_table of
             Inl e \<Rightarrow> Inl e
           | Inr rows \<Rightarrow> roster_rows_loop add headers tm rows db))"

text \<open>The loop over the teams, with a commit after each team: an error ends the run with
  the table as last committed.\<close>

fun teams_loop ::
  "(player_row list \<Rightarrow> (string \<Rightarrow> string option) \<Rightarrow> string \<Rightarrow> error + player_row list) \<Rightarrow>
   (string \<Rightarrow> node option) \<Rightarrow> (string \<Rightarrow> node) \<Rightarrow> string list \<Rightarrow> player_row list
   \<Rightarrow> error option \<times> player_row list"
where
  "teams_loop add fetch parse [] db = (None, db)"
| "teams_loop add fetch parse (tm # teams) db =
     (case fetch (roster_url tm) of
        None \<Rightarrow> teams_loop add fetch parse teams db
      | Some soup \<Rightarrow>
          (case locate_table parse soup ''roster'' of
             None \<Rightarrow> teams_loop add fetch parse teams db
           | Some roster_table \<Rightarrow>
               (case ingest_roster_table add tm roster_table db of
                  Inl e \<Rightarrow> (Some e, db)
                | Inr db' \<Rightarrow> teams_loop add fetch parse teams db')))"

text \<open>\<^verbatim>\<open>scrape_all_teams_roster\<close> of scrape\_bball\_ref.py and of data-base-creator.py.\<close>

definition scrape_all_teams_roster ::
  "(string \<Rightarrow> node option) \<Rightarrow> (string \<Rightarrow> node) \<Rightarrow> (string \<Rightarrow> pyfloat option) \<Rightarrow> player_row list
   \<Rightarrow> error option \<times> player_row list"
where
  "scrape_all_teams_roster fetch parse fl db =
     teams_loop (add_player_full fl) fetch parse TEAM_ABBRS db"

definition scrape_all_teams_roster_dbc ::
  "(string \<Rightarrow> node option) \<Rightarrow> (string \<Rightarrow> node) \<Rightarrow> (string \<Rightarrow> pyfloat option) \<Rightarrow> player_row list
   \<Rightarrow> error option \<times> player_row list"
where
  "scrape_all_teams_roster_dbc fetch parse fl db =
     teams_loop (add_player_partial fl) fetch parse TEAM_ABBRS db"

text \<open>The nine key columns of a row, and the rows in which none of them is \<^verbatim>\<open>NULL\<close>.\<close>

definition key9 ::
  "player_row \<Rightarrow> string \<times> string \<times> string option \<times> string option \<times> pyfloat option \<times>
     string option \<times> string option \<times> string option \<times> string option"
where
  "key9 r = (p_name r, p_team r, p_position r, p_height r, p_weight r, p_birth_date r,
             p_birth_country r, p_experience r, p_college r)"

definition full_key :: "player_row \<Rightarrow> bool" where
  "full_key r =
     (p_position r \<noteq> None \<and> p_height r \<noteq> None \<and> p_weight r \<noteq> None \<and> p_birth_date r \<noteq> None \<and>
      p_birth_country r \<noteq> None \<and> p_experience r \<noteq> None \<and> p_college r \<noteq> None)"

definition no_shared_key :: "player_row list \<Rightarrow> bool" where
  "no_shared_key db = distinct (map key9 (filter full_key db))"

subsection \<open>Example roster pages\<close>

definition th :: "string \<Rightarrow> node" where
  "th txt = Tag ''th'' [] (if txt = [] then [] else [NavigableString txt])"

text \<open>A roster table with one player; the header of the country column is a parameter.\<close>

definition example_roster_table :: "string \<Rightarrow> node" where
  "example_roster_table country_header =
     Tag ''table'' [(''id'', ''roster'')]
       [Tag ''thead'' []
          [Tag ''tr'' []
             [th ''No.'', th ''Player'', th ''Pos'', th ''Ht'', th ''Wt'', th ''Birth Date'',
              th country_header, th ''Exp'', th ''College'']],
        Tag ''tbody'' []
          [Tag ''tr'' []
             [th ''0'', td ''Jayson Tatum'', td ''SF'', td ''6-8'', td ''210'',
              td ''March 3, 1998'', td ''us'', td ''7'', td ''Duke'']]]"

definition example_roster_page :: "string \<Rightarrow> node" where
  "example_roster_page country_header =
     Tag ''[document]'' [] [Tag ''div'' [(''id'', ''all_roster'')] [example_roster_table country_header]]"

definition example_player_row :: "nat \<Rightarrow> string \<Rightarrow> string option \<Rightarrow> player_row" where
  "example_player_row i tm country =
     \<lparr>p_id = i, p_name = ''Jayson Tatum'', p_team = tm, p_position = Some ''SF'',
      p_height = Some ''6-8'', p_weight = Some (Finite 210),
      p_birth_date = Some ''March 3, 1998'', p_birth_country = country,
      p_experience = Some ''7'', p_college = Some ''Duke'', p_url = None\<rparr>"

text \<open>The site as seen by the roster driver: one team page, or the same roster under two
  teams.\<close>

definition example_fetch_one :: "string \<Rightarrow> string \<Rightarrow> node option" where
  "example_fetch_one country_header u =
     (if u = roster_url ''BOS'' then Some (example_roster_page country_header) else None)"

definition example_fetch_two :: "string \<Rightarrow> node option" where
  "example_fetch_two u =
     (if u = roster_url ''BOS'' \<or> u = roster_url ''CLE'' then Some (example_roster_page ''Birth'')
      else None)"

text \<open>A page whose roster table stands in a comment, with the parser on that comment.\<close>

definition example_roster_comment :: string where
  "example_roster_comment =
     ''<table id=roster><thead><tr><th>No.</th><th>Player</th><th>Pos</th><th>Ht</th><th>Wt</th><th>Birth Date</th><th>Birth</th><th>Exp</th><th>College</th></tr></thead><tbody><tr><th>0</th><td>Jayson Tatum</td><td>SF</td><td>6-8</td><td>210</td><td>March 3, 1998</td><td>us</td><td>7</td><td>Duke</td></tr></tbody></table>''"

definition example_roster_parse :: "string \<Rightarrow> node" where
  "example_roster_parse s =
     (if s = example_roster_comment then Tag ''[document]'' [] [example_roster_table ''Birth'']
      else Tag ''[document]'' [] [])"

definition example_commented_roster_page :: node where
  "example_commented_roster_page =
     Tag ''[document]'' []
       [Tag ''div'' [(''id'', ''all_roster'')] [Comment example_roster_comment]]"

section \<open>Comments are transparent for the roster and the schedule\<close>

text \<open>The test of \<open>find_by_id\<close> looks at the name and the attributes of a tag only.\<close>

definition id_match :: "string \<Rightarrow> string \<Rightarrow> node \<Rightarrow> bool" where
  "id_match nm ident x = (has_name nm x \<and> get_attr x ''id'' = Some ident)"

lemma find_by_id_alt: "find_by_id t nm ident = List.find (id_match nm ident) (descendants t)"
  by (simp add: find_by_id_def id_match_def[abs_def])

lemma id_match_tag: "id_match nm ident (Tag n a cs) = id_match nm ident (Tag n a cs')"
  by (simp add: id_match_def)

lemma find_append:
  "List.find P (xs @ ys) = (case List.find P xs of None \<Rightarrow> List.find P ys | Some x \<Rightarrow> Some x)"
  by (induction xs) auto

lemma first_in_comments_append:
  "first_in_comments parse nm ident (xs @ ys) =
     (case first_in_comments parse nm ident xs of
        None \<Rightarrow> first_in_comments parse nm ident ys
      | Some t \<Rightarrow> Some t)"
  by (induction xs) (auto split: option.splits)

lemma descendants_contents: "descendants t = concat (map flatten (contents_of t))"
  by (cases t) simp_all

text \<open>The comments of a list of nodes, and the search in the unwrapped list.\<close>

definition comments_in :: "node list \<Rightarrow> string list" where
  "comments_in ns = concat (map comment_text (concat (map flatten ns)))"

lemma comments_in_Cons: "comments_in (n # ns) = concat (map comment_text (flatten n)) @ comments_in ns"
  by (simp add: comments_in_def)

lemma uncomment_node:
  "List.find (id_match nm ident) (flatten n) = None \<Longrightarrow>
   List.find (id_match nm ident) (concat (map flatten (uncomment parse n))) =
     first_in_comments parse nm ident (concat (map comment_text (flatten n)))"
proof (induction n)
  case (Tag name a cs)
  let ?P = "id_match nm ident"
  from Tag.prems have notag: "\<not> ?P (Tag name a cs)"
    and kids: "List.find ?P (concat (map flatten cs)) = None"
    by (auto split: if_splits)
  have step: "List.find ?P (concat (map flatten (concat (map (uncomment parse) ks)))) =
      first_in_comments parse nm ident (comments_in ks)"
    if "set ks \<subseteq> set cs" "List.find ?P (concat (map flatten ks)) = None" for ks
    using that
  proof (induction ks)
    case Nil
    then show ?case by (simp add: comments_in_def)
  next
    case (Cons k ks)
    from Cons.prems(2) have k: "List.find ?P (flatten k) = None"
      and ks: "List.find ?P (concat (map flatten ks)) = None"
      by (auto simp: find_append split: option.splits)
    from Cons.prems(1) have "k \<in> set cs" by simp
    from Tag.IH[OF this k] have hk: "List.find ?P (concat (map flatten (uncomment parse k))) =
        first_in_comments parse nm ident (concat (map comment_text (flatten k)))" .
    from Cons.IH ks Cons.prems(1) have hks:
      "List.find ?P (concat (map flatten (concat (map (uncomment parse) ks)))) =
        first_in_comments parse nm ident (comments_in ks)" by simp
    show ?case
      by (simp add: find_append first_in_comments_append comments_in_Cons hk hks split: option.splits)
  qed
  from notag have "\<not> ?P (Tag name a (concat (map (uncomment parse) cs)))"
    using id_match_tag by blast
  then have "List.find ?P (concat (map flatten (uncomment parse (Tag name a cs)))) =
      List.find ?P (concat (map flatten (concat (map (uncomment parse) cs))))" by simp
  also have "\<dots> = first_in_comments parse nm ident (comments_in cs)"
    using step[of cs] kids by simp
  also have "comments_in cs = concat (map comment_text (flatten (Tag name a cs)))"
    by (simp add: comments_in_def)
  finally show ?case .
next
  case (NavigableString s)
  then show ?case by (simp add: id_match_def)
next
  case (Comment s)
  show ?case by (simp add: find_by_id_alt descendants_contents split: option.splits)
qed

lemma uncomment_nodes:
  "List.find (id_match nm ident) (concat (map flatten ks)) = None \<Longrightarrow>
   List.find (id_match nm ident) (concat (map flatten (concat (map (uncomment parse) ks)))) =
     first_in_comments parse nm ident (comments_in ks)"
proof (induction ks)
  case Nil
  then show ?case by (simp add: comments_in_def)
next
  case (Cons k ks)
  from Cons.prems have k: "List.find (id_match nm ident) (flatten k) = None"
    and ks: "List.find (id_match nm ident) (concat (map flatten ks)) = None"
    by (auto simp: find_append split: option.splits)
  show ?case
    by (simp add: find_append first_in_comments_append comments_in_Cons
        uncomment_node[OF k] Cons.IH[OF ks] split: option.splits)
qed

lemma locate_table_in_comments:
  assumes "find_by_id soup ''table'' ident = None"
  shows "locate_table parse soup ident = find_by_id (unwrap_comments parse soup) ''table'' ident"
proof (cases soup)
  case (Tag n a cs)
  from assms Tag have none: "List.find (id_match ''table'' ident) (concat (map flatten cs)) = None"
    by (simp add: find_by_id_alt)
  have "locate_table parse soup ident = first_in_comments parse ''table'' ident (comments_in cs)"
    using assms Tag by (simp add: locate_table_def comments_of_def comments_in_def)
  also have "\<dots> = List.find (id_match ''table'' ident)
      (concat (map flatten (concat (map (uncomment parse) cs))))"
    using uncomment_nodes[OF none] by simp
  also have "\<dots> = find_by_id (unwrap_comments parse soup) ''table'' ident"
    using Tag by (simp add: find_by_id_alt)
  finally show ?thesis .
next
  case (NavigableString s)
  then show ?thesis by (simp add: locate_table_def find_by_id_def comments_of_def)
next
  case (Comment s)
  then show ?thesis by (simp add: locate_table_def find_by_id_def comments_of_def)
qed

text \<open>
  C5 (as amended). For the tables located by their exact id with \<^verbatim>\<open>locate_table\<close> (the
  roster and the schedule): a table of the live tree is returned as it is, and when the
  live tree has none, the result is what the live search finds in the document whose
  comments are replaced by the nodes they parse to.
\<close>

theorem comment_wrapping_transparent:
  "(find_by_id soup ''table'' ident = Some t \<longrightarrow> locate_table parse soup ident = Some t) \<and>
   (find_by_id soup ''table'' ident = None \<longrightarrow>
      locate_table parse soup ident = find_by_id (unwrap_comments parse soup) ''table'' ident)"
  by (simp add: locate_table_in_comments) (simp add: locate_table_def)

theorem comment_wrapping_transparent_witness:
  "find_by_id example_commented_roster_page ''table'' ''roster'' = None \<and>
   locate_table example_roster_parse example_commented_roster_page ''roster'' =
     Some (example_roster_table ''Birth'') \<and>
   find_by_id (unwrap_comments example_roster_parse example_commented_roster_page) ''table'' ''roster'' =
     Some (example_roster_table ''Birth'')"
proof -
  have n: "find_by_id example_commented_roster_page ''table'' ''roster'' = None" by code_simp
  have l: "locate_table example_roster_parse example_commented_roster_page ''roster'' =
     Some (example_roster_table ''Birth'')" by code_simp
  from comment_wrapping_transparent[of example_commented_roster_page "''roster''" _ example_roster_parse] n l
  show ?thesis by simp
qed


text \<open>The box-score tables are searched in the live tree only, and the per-game table
  below its live container only: inside a comment they are not found.\<close>

theorem box_tables_in_comment_counterexample:
  "box_tables ''-game-basic'' example_commented_box_page = [] \<and>
   box_tables ''-game-basic'' (unwrap_comments example_parse example_commented_box_page) =
     [example_small_table] \<and>
   scrape_single_box_score (\<lambda>u. Some example_commented_box_page) example_float example_link = Inr [] \<and>
   scrape_single_box_score
     (\<lambda>u. Some (unwrap_comments example_parse example_commented_box_page)) example_float example_link
     \<noteq> Inr [] \<and>
   locate_per_game_table example_parse example_commented_stats_page = None \<and>
   locate_per_game_table example_parse (unwrap_comments example_parse example_commented_stats_page) =
     Some example_stats_table"
  by code_simp

section \<open>De-duplication of the players\<close>

definition example_player_data :: "string \<Rightarrow> string option" where
  "example_player_data =
     player_data_of
       [''No.'', ''Player'', ''Pos'', ''Ht'', ''Wt'', ''Birth Date'', ''Birth'', ''Exp'', ''College'']
       [''0'', ''Jayson Tatum'', ''SF'', ''6-8'', ''210'', ''March 3, 1998'', ''us'', ''7'', ''Duke'']
       ''BOS''"

lemma key9_new_player:
  "key9 (new_player i nm pd tm w) =
     (nm, tm, pd ''Pos'', pd ''Ht'', sql_real w, pd ''Birth Date'', pd ''Birth'', pd ''Exp'',
      pd ''College'')"
  by (simp add: key9_def new_player_def)

lemma full_key_new_player:
  "full_key (new_player i nm pd tm w) \<longleftrightarrow>
     (pd ''Pos'' \<noteq> None \<and> pd ''Ht'' \<noteq> None \<and> sql_real w \<noteq> None \<and> pd ''Birth Date'' \<noteq> None \<and>
      pd ''Birth'' \<noteq> None \<and> pd ''Exp'' \<noteq> None \<and> pd ''College'' \<noteq> None)"
  by (simp add: full_key_def new_player_def)

text \<open>For a candidate without a \<^verbatim>\<open>NULL\<close> in its key, the nine-column check is equality of
  the keys.\<close>

lemma exists_full_iff:
  assumes "pd ''Player'' = Some nm" and "full_key (new_player i nm pd tm w)"
  shows "exists_full db pd tm w \<longleftrightarrow> (\<exists>r \<in> set db. key9 r = key9 (new_player i nm pd tm w))"
proof -
  from assms(2) have nn: "pd ''Pos'' \<noteq> None" "pd ''Ht'' \<noteq> None" "sql_real w \<noteq> None"
    "pd ''Birth Date'' \<noteq> None" "pd ''Birth'' \<noteq> None" "pd ''Exp'' \<noteq> None" "pd ''College'' \<noteq> None"
    by (simp_all add: full_key_new_player)
  have "(sql_eq (Some (p_name r)) (pd ''Player'') \<and> p_team r = tm \<and>
         sql_eq (p_position r) (pd ''Pos'') \<and> sql_eq (p_height r) (pd ''Ht'') \<and>
         sql_eq (p_weight r) (sql_real w) \<and> sql_eq (p_birth_date r) (pd ''Birth Date'') \<and>
         sql_eq (p_birth_country r) (pd ''Birth'') \<and> sql_eq (p_experience r) (pd ''Exp'') \<and>
         sql_eq (p_college r) (pd ''College''))
        \<longleftrightarrow> key9 r = key9 (new_player i nm pd tm w)" for r
    using nn assms(1) by (auto simp: sql_eq_def key9_def new_player_def)
  then show ?thesis by (simp add: exists_full_def list_ex_iff)
qed

lemma exists_partial_iff:
  assumes "pd ''Player'' = Some nm" "pd ''Ht'' \<noteq> None" "pd ''College'' \<noteq> None" "pd ''Exp'' \<noteq> None"
  shows "exists_partial db pd \<longleftrightarrow>
     (\<exists>r \<in> set db. (p_name r, p_height r, p_college r, p_experience r) =
                    (nm, pd ''Ht'', pd ''College'', pd ''Exp''))"
  using assms by (auto simp: exists_partial_def list_ex_iff sql_eq_def)

text \<open>A row with a full key that equals the key of the candidate is found by both checks.\<close>

lemma same_key_found_full:
  assumes "r \<in> set db" "full_key r" "key9 r = key9 (new_player i nm pd tm w)"
    and "pd ''Player'' = Some nm"
  shows "exists_full db pd tm w"
  using assms unfolding exists_full_def list_ex_iff
  by (intro bexI[of _ r]) (auto simp: sql_eq_def key9_def new_player_def full_key_def)

lemma same_key_found_partial:
  assumes "r \<in> set db" "full_key r" "key9 r = key9 (new_player i nm pd tm w)"
    and "pd ''Player'' = Some nm"
  shows "exists_partial db pd"
  using assms unfolding exists_partial_def list_ex_iff
  by (intro bexI[of _ r]) (auto simp: sql_eq_def key9_def new_player_def full_key_def)

lemma no_shared_key_append:
  assumes "no_shared_key db"
    and "\<And>r. r \<in> set db \<Longrightarrow> full_key r \<Longrightarrow> key9 r = key9 row \<Longrightarrow> False"
  shows "no_shared_key (db @ [row])"
proof -
  have "key9 row \<notin> set (map key9 (filter full_key db))"
  proof
    assume "key9 row \<in> set (map key9 (filter full_key db))"
    then obtain r where "r \<in> set db" "full_key r" "key9 r = key9 row" by auto
    with assms(2) show False by blast
  qed
  with assms(1) show ?thesis by (simp add: no_shared_key_def)
qed

lemma insert_player_row:
  "insert_player db pd tm w = Inr db' \<Longrightarrow>
   \<exists>nm. pd ''Player'' = Some nm \<and> db' = db @ [new_player (fresh_id db) nm pd tm w]"
  by (auto simp: insert_player_def split: option.splits)

lemma add_player_full_keeps:
  assumes "add_player_full fl db pd tm = Inr db'" "no_shared_key db"
  shows "no_shared_key db'"
proof -
  from assms(1) obtain w where w: "weight_of fl pd = Inr w"
    by (auto simp: add_player_full_def split: sum.splits)
  show ?thesis
  proof (cases "exists_full db pd tm w")
    case True
    with assms w show ?thesis by (simp add: add_player_full_def)
  next
    case False
    with assms(1) w have "insert_player db pd tm w = Inr db'" by (simp add: add_player_full_def)
    from insert_player_row[OF this] obtain nm where nm: "pd ''Player'' = Some nm"
      and db': "db' = db @ [new_player (fresh_id db) nm pd tm w]" by blast
    show ?thesis unfolding db'
    proof (rule no_shared_key_append[OF assms(2)])
      fix r assume "r \<in> set db" "full_key r" "key9 r = key9 (new_player (fresh_id db) nm pd tm w)"
      from same_key_found_full[OF this nm] False show False by simp
    qed
  qed
qed

lemma add_player_partial_keeps:
  assumes "add_player_partial fl db pd tm = Inr db'" "no_shared_key db"
  shows "no_shared_key db'"
proof (cases "exists_partial db pd")
  case True
  with assms show ?thesis by (simp add: add_player_partial_def)
next
  case False
  with assms(1) obtain w where "insert_player db pd tm w = Inr db'"
    by (auto simp: add_player_partial_def split: sum.splits)
  from insert_player_row[OF this] obtain nm where nm: "pd ''Player'' = Some nm"
    and db': "db' = db @ [new_player (fresh_id db) nm pd tm w]" by blast
  show ?thesis unfolding db'
  proof (rule no_shared_key_append[OF assms(2)])
    fix r assume "r \<in> set db" "full_key r" "key9 r = key9 (new_player (fresh_id db) nm pd tm w)"
    from same_key_found_partial[OF this nm] False show False by simp
  qed
qed

lemma roster_rows_loop_keeps:
  assumes add: "\<And>db pd tm db'. add db pd tm = Inr db' \<Longrightarrow> no_shared_key db \<Longrightarrow> no_shared_key db'"
  shows "roster_rows_loop add headers tm rows db = Inr db' \<Longrightarrow> no_shared_key db \<Longrightarrow> no_shared_key db'"
proof (induction rows arbitrary: db)
  case Nil
  then show ?case by simp
next
  case (Cons row rows)
  show ?case
  proof (cases "map get_text (find_all_cells row) = []")
    case True
    with Cons show ?thesis by simp
  next
    case False
    with Cons.prems(1) obtain db1 where
      s: "add db (player_data_of headers (map get_text (find_all_cells row)) tm) tm = Inr db1"
      and r: "roster_rows_loop add headers tm rows db1 = Inr db'"
      by (auto split: sum.splits)
    from add[OF s Cons.prems(2)] have "no_shared_key db1" .
    from Cons.IH[OF r this] show ?thesis .
  qed
qed

lemma ingest_roster_table_keeps:
  assumes add: "\<And>db pd tm db'. add db pd tm = Inr db' \<Longrightarrow> no_shared_key db \<Longrightarrow> no_shared_key db'"
    and "ingest_roster_table add tm tbl db = Inr db'" "no_shared_key db"
  shows "no_shared_key db'"
proof -
  from assms(2) obtain headers rows where
    "roster_rows_loop add headers tm rows db = Inr db'"
    by (auto simp: ingest_roster_table_def split: sum.splits)
  from roster_rows_loop_keeps[OF add this assms(3)] show ?thesis by simp
qed

lemma teams_loop_keeps:
  assumes add: "\<And>db pd tm db'. add db pd tm = Inr db' \<Longrightarrow> no_shared_key db \<Longrightarrow> no_shared_key db'"
  shows "no_shared_key db \<Longrightarrow> no_shared_key (snd (teams_loop add fetch parse teams db))"
proof (induction teams arbitrary: db)
  case Nil
  then show ?case by simp
next
  case (Cons tm teams)
  show ?case
  proof (cases "fetch (roster_url tm)")
    case None
    with Cons show ?thesis by simp
  next
    case (Some soup)
    show ?thesis
    proof (cases "locate_table parse soup ''roster''")
      case None
      with Some Cons show ?thesis by simp
    next
      case tbl: (Some roster_table)
      show ?thesis
      proof (cases "ingest_roster_table add tm roster_table db")
        case (Inl e)
        with Some tbl Cons.prems show ?thesis by simp
      next
        case (Inr db1)
        from ingest_roster_table_keeps[OF add Inr Cons.prems] have "no_shared_key db1" by simp
        from Cons.IH[OF this] Some tbl Inr show ?thesis by simp
      qed
    qed
  qed
qed


text \<open>
  C8 (as amended). In scrape\_bball\_ref.py a candidate with no \<^verbatim>\<open>NULL\<close> among its nine key
  values is inserted if and only if no row has the same nine values; in
  data-base-creator.py a candidate with a name, a height, a college and an experience is
  inserted if and only if no row has the same four values. Under both, a table in which
  no two rows with a full key share it stays so after a run of the roster driver.
\<close>

theorem roster_dedup_keys:
  "(weight_of fl pd = Inr w \<and> pd ''Player'' = Some nm \<and> full_key (new_player i nm pd tm w) \<longrightarrow>
      add_player_full fl db pd tm =
        Inr (if \<exists>r \<in> set db. key9 r = key9 (new_player i nm pd tm w) then db
             else db @ [new_player (fresh_id db) nm pd tm w])) \<and>
   (weight_of fl pd = Inr w \<and> pd ''Player'' = Some nm \<and> pd ''Ht'' \<noteq> None \<and>
    pd ''College'' \<noteq> None \<and> pd ''Exp'' \<noteq> None \<longrightarrow>
      add_player_partial fl db pd tm =
        Inr (if \<exists>r \<in> set db. (p_name r, p_height r, p_college r, p_experience r) =
                              (nm, pd ''Ht'', pd ''College'', pd ''Exp'') then db
             else db @ [new_player (fresh_id db) nm pd tm w])) \<and>
   (no_shared_key db0 \<longrightarrow>
      no_shared_key (snd (scrape_all_teams_roster fetch parse fl db0)) \<and>
      no_shared_key (snd (scrape_all_teams_roster_dbc fetch parse fl db0)))"
proof (intro conjI impI)
  assume a: "weight_of fl pd = Inr w \<and> pd ''Player'' = Some nm \<and> full_key (new_player i nm pd tm w)"
  then have "exists_full db pd tm w \<longleftrightarrow> (\<exists>r \<in> set db. key9 r = key9 (new_player i nm pd tm w))"
    using exists_full_iff by blast
  with a show "add_player_full fl db pd tm =
        Inr (if \<exists>r \<in> set db. key9 r = key9 (new_player i nm pd tm w) then db
             else db @ [new_player (fresh_id db) nm pd tm w])"
    by (cases "exists_full db pd tm w") (auto simp: add_player_full_def insert_player_def)
next
  assume a: "weight_of fl pd = Inr w \<and> pd ''Player'' = Some nm \<and> pd ''Ht'' \<noteq> None \<and>
    pd ''College'' \<noteq> None \<and> pd ''Exp'' \<noteq> None"
  then have "exists_partial db pd \<longleftrightarrow>
     (\<exists>r \<in> set db. (p_name r, p_height r, p_college r, p_experience r) =
                    (nm, pd ''Ht'', pd ''College'', pd ''Exp''))"
    using exists_partial_iff by blast
  with a show "add_player_partial fl db pd tm =
        Inr (if \<exists>r \<in> set db. (p_name r, p_height r, p_college r, p_experience r) =
                              (nm, pd ''Ht'', pd ''College'', pd ''Exp'') then db
             else db @ [new_player (fresh_id db) nm pd tm w])"
    by (cases "exists_partial db pd") (auto simp: add_player_partial_def insert_player_def)
next
  assume k: "no_shared_key db0"
  have "\<And>db pd tm db'. add_player_full fl db pd tm = Inr db' \<Longrightarrow> no_shared_key db \<Longrightarrow> no_shared_key db'"
    by (rule add_player_full_keeps)
  from teams_loop_keeps[where add = "add_player_full fl", OF this k]
  show "no_shared_key (snd (scrape_all_teams_roster fetch parse fl db0))"
    unfolding scrape_all_teams_roster_def .
next
  assume k: "no_shared_key db0"
  have "\<And>db pd tm db'. add_player_partial fl db pd tm = Inr db' \<Longrightarrow> no_shared_key db \<Longrightarrow> no_shared_key db'"
    by (rule add_player_partial_keeps)
  from teams_loop_keeps[where add = "add_player_partial fl", OF this k]
  show "no_shared_key (snd (scrape_all_teams_roster_dbc fetch parse fl db0))"
    unfolding scrape_all_teams_roster_dbc_def .
qed

theorem roster_dedup_keys_witness:
  "weight_of example_float example_player_data = Inr (Finite 210) \<and>
   example_player_data ''Player'' = Some ''Jayson Tatum'' \<and>
   full_key (new_player 1 ''Jayson Tatum'' example_player_data ''BOS'' (Finite 210)) \<and>
   example_player_data ''Ht'' \<noteq> None \<and> example_player_data ''College'' \<noteq> None \<and>
   example_player_data ''Exp'' \<noteq> None \<and>
   add_player_full example_float [] example_player_data ''BOS'' =
     Inr [new_player (fresh_id []) ''Jayson Tatum'' example_player_data ''BOS'' (Finite 210)] \<and>
   add_player_partial example_float [] example_player_data ''BOS'' =
     Inr [new_player (fresh_id []) ''Jayson Tatum'' example_player_data ''BOS'' (Finite 210)] \<and>
   new_player (fresh_id []) ''Jayson Tatum'' example_player_data ''BOS'' (Finite 210) =
     example_player_row 1 ''BOS'' (Some ''us'') \<and>
   no_shared_key [] \<and>
   no_shared_key (snd (scrape_all_teams_roster (example_fetch_one ''Birth'') example_parse example_float [])) \<and>
   no_shared_key (snd (scrape_all_teams_roster_dbc (example_fetch_one ''Birth'') example_parse example_float []))"
proof -
  have w: "weight_of example_float example_player_data = Inr (Finite 210)" by code_simp
  have n: "example_player_data ''Player'' = Some ''Jayson Tatum''" by code_simp
  have f: "full_key (new_player 1 ''Jayson Tatum'' example_player_data ''BOS'' (Finite 210))"
    by code_simp
  have p: "example_player_data ''Ht'' \<noteq> None" "example_player_data ''College'' \<noteq> None"
    "example_player_data ''Exp'' \<noteq> None" by code_simp+
  have r: "new_player (fresh_id []) ''Jayson Tatum'' example_player_data ''BOS'' (Finite 210) =
     example_player_row 1 ''BOS'' (Some ''us'')" by code_simp
  have k: "no_shared_key []" by (simp add: no_shared_key_def)
  from roster_dedup_keys[of example_float example_player_data "Finite 210" "''Jayson Tatum''" 1
      "''BOS''" "[]" "[]" "example_fetch_one ''Birth''" example_parse] w n f p r k
  show ?thesis by simp
qed


text \<open>In data-base-creator.py the same player under a second team is skipped, though no
  row has his nine values; scrape\_bball\_ref.py inserts him.\<close>

theorem roster_partial_key_counterexample:
  "scrape_all_teams_roster_dbc example_fetch_two example_parse example_float [] =
     (None, [example_player_row 1 ''BOS'' (Some ''us'')]) \<and>
   scrape_all_teams_roster example_fetch_two example_parse example_float [] =
     (None, [example_player_row 1 ''BOS'' (Some ''us''), example_player_row 2 ''CLE'' (Some ''us'')]) \<and>
   key9 (example_player_row 1 ''BOS'' (Some ''us'')) \<noteq> key9 (example_player_row 2 ''CLE'' (Some ''us''))"
  by code_simp


text \<open>
  C3, at an input where the code does not do what the claim says: a roster table whose
  country column has no header text. The value of \<^verbatim>\<open>player_data.get("Birth")\<close> is then
  \<^verbatim>\<open>None\<close>, the comparison \<^verbatim>\<open>birth_country = NULL\<close> of the duplicate check holds of no row,
  and the second run over the same page inserts the player again.
\<close>

theorem roster_rerun_duplicates:
  "scrape_all_teams_roster (example_fetch_one []) example_parse example_float [] =
     (None, [example_player_row 1 ''BOS'' None]) \<and>
   scrape_all_teams_roster (example_fetch_one []) example_parse example_float
       [example_player_row 1 ''BOS'' None] =
     (None, [example_player_row 1 ''BOS'' None, example_player_row 2 ''BOS'' None]) \<and>
   key9 (example_player_row 1 ''BOS'' None) = key9 (example_player_row 2 ''BOS'' None)"
  by code_simp

subsection \<open>Two box-score pages, one with a malformed cell\<close>

definition example_bad_row :: node where
  "example_bad_row =
     Tag ''tr'' [] [cell ''th'' ''player'' ''Jalen Brunson'', cell ''td'' ''pts'' ''n/a'']"

definition example_bad_table :: node where
  "example_bad_table =
     Tag ''table'' [(''id'', ''box-NYK-game-basic'')] [Tag ''tbody'' [] [example_bad_row]]"

definition example_bad_page :: node where
  "example_bad_page = Tag ''[document]'' [] [example_bad_table]"

definition example_good_page :: node where
  "example_good_page = Tag ''[document]'' [] [example_small_table]"

definition example_second_link :: string where
  "example_second_link = ''https://www.basketball-reference.com/boxscores/202410220LAL.html''"

definition example_box_fetch :: "string \<Rightarrow> node option" where
  "example_box_fetch u =
     (if u = example_link then Some example_bad_page
      else if u = example_second_link then Some example_good_page
      else None)"

definition example_second_game :: gamelog_row where
  "example_second_game =
     \<lparr>g_season_year = 2025, g_month = ''October'',
      g_game_date = ''Tue, Oct 22, 2024'', g_start_et = ''10:00p'',
      g_visitor_team = ''Minnesota Timberwolves'', g_visitor_pts = 103,
      g_home_team = ''Los Angeles Lakers'', g_home_pts = 110,
      g_box_score_link = Some example_second_link,
      g_overtime = [], g_attendance = ''18997'', g_notes = []\<rparr>"

definition example_gamelogs :: "gamelog_row list" where
  "example_gamelogs = [example_game 2025 ''october'', example_second_game]"

definition example_stored_row :: "pyval list" where
  "example_stored_row =
     [PStr example_second_link, PStr ''box-BOS-game-basic'', PStr ''Jayson Tatum'', PInt 0, PNone,
      PInt 0, PInt 0, PInt 0, PInt 0, PInt 0, PInt 0, PInt 0, PInt 0, PInt 0, PInt 0, PInt 0,
      PInt 0, PInt 0, PInt 0, PInt 0, PInt 0, PInt 0, PInt 37, PInt 0]"

section \<open>A malformed numeric cell\<close>

lemma in_dropWhile: "x \<in> set xs \<Longrightarrow> \<not> P x \<Longrightarrow> x \<in> set (dropWhile P xs)"
  by (induction xs) auto

lemma in_strip: "c \<in> set s \<Longrightarrow> \<not> is_space c \<Longrightarrow> c \<in> set (strip s)"
  by (simp add: strip_def in_dropWhile)

lemma parse_digits_chars:
  "parse_digits cs acc = Some n \<Longrightarrow> c \<in> set cs \<Longrightarrow> is_digit c \<or> c = CHR ''_''"
  by (induction cs acc rule: parse_digits.induct) (auto split: if_splits list.splits)

lemma parse_unsigned_chars:
  "parse_unsigned cs = Some n \<Longrightarrow> c \<in> set cs \<Longrightarrow> is_digit c \<or> c = CHR ''_''"
  by (cases cs) (auto simp: parse_unsigned_def dest: parse_digits_chars split: if_splits)

text \<open>A text with a character that is no digit, underscore, sign or white space is not
  an integer for \<^verbatim>\<open>int\<close>.\<close>

lemma py_int_rejects:
  assumes "c \<in> set s" "\<not> is_space c" "\<not> is_digit c" "c \<notin> set ''_+-''"
  shows "py_int s = None"
proof (rule ccontr)
  assume "py_int s \<noteq> None"
  then obtain i where i: "py_int s = Some i" by auto
  from assms(1,2) have c: "c \<in> set (strip s)" by (rule in_strip)
  then obtain d ds where s: "strip s = d # ds" by (cases "strip s") auto
  from i s have "(\<exists>n. parse_unsigned ds = Some n) \<and> (d = CHR ''-'' \<or> d = CHR ''+'') \<or>
      (\<exists>n. parse_unsigned (d # ds) = Some n)"
    by (auto simp: py_int_def split: if_splits)
  then show False
  proof
    assume a: "(\<exists>n. parse_unsigned ds = Some n) \<and> (d = CHR ''-'' \<or> d = CHR ''+'')"
    with c s assms(4) have "c \<in> set ds" by auto
    with a parse_unsigned_chars assms(3,4) show False by fastforce
  next
    assume "\<exists>n. parse_unsigned (d # ds) = Some n"
    with c s parse_unsigned_chars assms(3,4) show False by fastforce
  qed
qed

lemma int_stat_raises:
  assumes "find_data_stat row key = Some c" "get_text c \<noteq> []" "py_int (get_text c) = None"
  shows "int_stat row key = Inl ValueError"
  using assms by (simp add: int_stat_def)

lemma int_stat_error: "int_stat row key = Inl e \<Longrightarrow> e = ValueError"
  by (auto simp: int_stat_def Let_def split: option.splits if_splits)

lemma float_stat_error: "float_stat fl row key = Inl e \<Longrightarrow> e = ValueError"
  by (auto simp: float_stat_def Let_def split: option.splits if_splits)

lemma build_dict_raises: "(k, Inl e) \<in> set es \<Longrightarrow> \<exists>e'. build_dict es = Inl e'"
  by (induction es rule: build_dict.induct) (auto split: sum.splits)

lemma build_dict_error:
  "build_dict es = Inl e \<Longrightarrow> \<exists>k. (k, Inl e) \<in> set es"
  by (induction es rule: build_dict.induct) (auto split: sum.splits)

lemma box_row_error:
  assumes "build_dict (box_row_entries fl row link team nm) = Inl e"
  shows "e = ValueError"
proof -
  from build_dict_error[OF assms] obtain k where
    "(k, Inl e) \<in> set (box_row_entries fl row link team nm)" by blast
  then have "(\<exists>key. int_stat row key = Inl e) \<or> (\<exists>key. float_stat fl row key = Inl e)"
    unfolding box_row_entries_def by (simp, elim disjE conjE; metis)
  then show ?thesis using int_stat_error float_stat_error by blast
qed

lemma box_row_raises:
  assumes "(col, key) \<in> set int_columns" "int_stat row key = Inl ValueError"
  shows "build_dict (box_row_entries fl row link team nm) = Inl ValueError"
proof -
  from assms(1) have "map_of (box_row_entries fl row link team nm) col = Some (int_stat row key)"
    by (rule box_int_entries)
  then have "(col, Inl ValueError) \<in> set (box_row_entries fl row link team nm)"
    using assms(2) by (simp add: map_of_SomeD)
  from build_dict_raises[OF this] obtain e' where
    e: "build_dict (box_row_entries fl row link team nm) = Inl e'" by blast
  with box_row_error[OF e] show ?thesis by simp
qed

lemma box_rows_loop_error: "box_rows_loop fl link team rows = Inl e \<Longrightarrow> e = ValueError"
proof (induction rows)
  case Nil
  then show ?case by simp
next
  case (Cons row rows)
  then show ?case
    by (auto simp: Let_def split: if_splits option.splits sum.splits dest: box_row_error)
qed

lemma box_rows_loop_raises:
  assumes "row \<in> set rows" "box_keeps row" "(col, key) \<in> set int_columns"
    "int_stat row key = Inl ValueError"
  shows "box_rows_loop fl link team rows = Inl ValueError"
proof -
  have "\<exists>e. box_rows_loop fl link team rows = Inl e" using assms(1)
  proof (induction rows)
    case Nil
    then show ?case by simp
  next
    case (Cons r rows)
    show ?case
    proof (cases "r = row")
      case True
      from assms(2) obtain pc where pc: "find_data_stat row ''player'' = Some pc"
        and ok: "get_text pc \<noteq> []" "\<not> py_in ''Totals'' (get_text pc)"
        and nt: "\<not> has_class row ''thead''" and cells: "find_all_cells row \<noteq> []"
        by (auto simp: box_keeps_def advanced_keeps_def identity_text_def split: option.splits)
      from box_row_raises[OF assms(3,4)] True pc ok nt cells show ?thesis by simp
    next
      case False
      with Cons have "\<exists>e. box_rows_loop fl link team rows = Inl e" by simp
      then show ?thesis
        by (auto simp: Let_def split: if_splits option.splits sum.splits)
    qed
  qed
  with box_rows_loop_error show ?thesis by blast
qed

lemma parse_box_raises:
  assumes "row \<in> set (body_rows tbl)" "box_keeps row" "(col, key) \<in> set int_columns"
    "int_stat row key = Inl ValueError"
  shows "parse_box_score_table fl tbl link team = Inl ValueError"
proof (cases "find_tag tbl ''tbody''")
  case None
  with assms(1) show ?thesis by (simp add: body_rows_def)
next
  case (Some tbody)
  with assms(1) have "row \<in> set (find_all_tag tbody ''tr'')" by (simp add: body_rows_def)
  from box_rows_loop_raises[OF this assms(2,3,4)] Some show ?thesis
    by (simp add: parse_box_score_table_def)
qed

lemma parse_box_error: "parse_box_score_table fl tbl link team = Inl e \<Longrightarrow> e = ValueError"
  by (auto simp: parse_box_score_table_def split: option.splits dest: box_rows_loop_error)

lemma tables_loop_raises:
  assumes "tbl \<in> set tbls"
    and "extract tbl link (team_name_of sfx tbl) = Inl ValueError"
    and "\<And>t l n e. extract t l n = Inl e \<Longrightarrow> e = ValueError"
  shows "tables_loop extract sfx link tbls = Inl ValueError"
  using assms(1)
proof (induction tbls)
  case Nil
  then show ?case by simp
next
  case (Cons t tbls)
  show ?case
  proof (cases "extract t link (team_name_of sfx t)")
    case (Inl e)
    with assms(3) show ?thesis by auto
  next
    case (Inr rows)
    with Cons assms(2) have "tbl \<in> set tbls" by auto
    with Cons.IH Inr show ?thesis by simp
  qed
qed

lemma links_loop_append:
  "links_loop scrape store (xs @ ys) db =
     (case links_loop scrape store xs db of
        (None, db1) \<Rightarrow> links_loop scrape store ys db1
      | (Some e, db1) \<Rightarrow> (Some e, db1))"
  by (induction xs arbitrary: db) (auto split: sum.splits)


text \<open>
  C9 (as amended). When an integer cell of a kept row is present with a text that is not
  empty and that \<^verbatim>\<open>int\<close> rejects, the coercion raises \<^verbatim>\<open>ValueError\<close>, and nothing catches
  it: \<^verbatim>\<open>parse_box_score_table\<close> and \<^verbatim>\<open>scrape_single_box_score\<close> end with it, and so does the
  loop of the driver at that link. The rows stored for the links before it stay; that
  link and the links after it are not processed.
\<close>

theorem malformed_cell_aborts_run:
  assumes "link \<noteq> []" and "fetch link = Some soup"
    and "tbl \<in> set (box_tables ''-game-basic'' soup)"
    and "row \<in> set (body_rows tbl)" and "box_keeps row"
    and "(col, key) \<in> set int_columns"
    and "find_data_stat row key = Some c" and "get_text c \<noteq> []" and "py_int (get_text c) = None"
  shows "int_stat row key = Inl ValueError \<and>
         parse_box_score_table fl tbl link (team_name_of '' Basic and Advanced Stats'' tbl)
           = Inl ValueError \<and>
         scrape_single_box_score fetch fl link = Inl ValueError \<and>
         (links_loop (scrape_single_box_score fetch fl) store_box_score_rows before db = (None, db1)
            \<longrightarrow> links_loop (scrape_single_box_score fetch fl) store_box_score_rows
                   (before @ link # remaining) db = (Some (Extraction ValueError), db1))"
proof -
  have i: "int_stat row key = Inl ValueError" using assms(7,8,9) by (rule int_stat_raises)
  have p: "parse_box_score_table fl tbl link (team_name_of '' Basic and Advanced Stats'' tbl)
      = Inl ValueError"
    using assms(4,5,6) i by (rule parse_box_raises)
  have "tables_loop (parse_box_score_table fl) '' Basic and Advanced Stats'' link
      (box_tables ''-game-basic'' soup) = Inl ValueError"
    using assms(3) p parse_box_error by (rule tables_loop_raises)
  then have s: "scrape_single_box_score fetch fl link = Inl ValueError"
    using assms(1,2) by (simp add: scrape_single_box_score_def scrape_single_def)
  have l: "links_loop (scrape_single_box_score fetch fl) store_box_score_rows
      (before @ link # remaining) db = (Some (Extraction ValueError), db1)"
    if "links_loop (scrape_single_box_score fetch fl) store_box_score_rows before db = (None, db1)"
    using that s assms(1) by (simp add: links_loop_append)
  from i p s l show ?thesis by blast
qed

theorem malformed_cell_aborts_run_witness:
  "example_link \<noteq> [] \<and> example_box_fetch example_link = Some example_bad_page \<and>
   example_bad_table \<in> set (box_tables ''-game-basic'' example_bad_page) \<and>
   example_bad_row \<in> set (body_rows example_bad_table) \<and> box_keeps example_bad_row \<and>
   (''pts'', ''pts'') \<in> set int_columns \<and>
   find_data_stat example_bad_row ''pts'' = Some (cell ''td'' ''pts'' ''n/a'') \<and>
   get_text (cell ''td'' ''pts'' ''n/a'') = ''n/a'' \<and> py_int ''n/a'' = None \<and>
   int_stat example_bad_row ''pts'' = Inl ValueError \<and>
   scrape_single_box_score example_box_fetch example_float example_link = Inl ValueError \<and>
   links_loop (scrape_single_box_score example_box_fetch example_float) store_box_score_rows
     [example_link, example_second_link] [] = (Some (Extraction ValueError), [])"
proof -
  have h: "example_link \<noteq> []" "example_box_fetch example_link = Some example_bad_page"
    "example_bad_table \<in> set (box_tables ''-game-basic'' example_bad_page)"
    "example_bad_row \<in> set (body_rows example_bad_table)" "box_keeps example_bad_row"
    "(''pts'', ''pts'') \<in> set int_columns"
    "find_data_stat example_bad_row ''pts'' = Some (cell ''td'' ''pts'' ''n/a'')"
    by code_simp+
  have t: "get_text (cell ''td'' ''pts'' ''n/a'') = ''n/a''" by code_simp
  have n: "get_text (cell ''td'' ''pts'' ''n/a'') \<noteq> []" by code_simp
  have p: "py_int ''n/a'' = None" by code_simp
  have p': "py_int (get_text (cell ''td'' ''pts'' ''n/a'')) = None" by code_simp
  have b: "links_loop (scrape_single_box_score example_box_fetch example_float) store_box_score_rows
      [] [] = (None, [])" by simp
  from malformed_cell_aborts_run
    [where fetch = example_box_fetch and link = example_link and soup = example_bad_page
       and tbl = example_bad_table and row = example_bad_row and col = "''pts''"
       and key = "''pts''" and c = "cell ''td'' ''pts'' ''n/a''" and fl = example_float
       and before = "[]" and db = "[]" and ?db1.0 = "[]" and remaining = "[example_second_link]",
     OF h n p']
    h t p b
  show ?thesis by simp
qed


text \<open>The driver over two links, the first with a malformed cell: the run ends with the
  error and stores nothing, though the second link alone yields a row.\<close>

theorem driver_stops_at_malformed_cell_counterexample:
  "box_score_links example_gamelogs = [example_link, example_second_link] \<and>
   scrape_box_scores_for_all_games example_box_fetch example_float example_gamelogs [] =
     (Some (Extraction ValueError), []) \<and>
   scrape_box_scores_for_all_games example_box_fetch example_float [example_second_game] [] =
     (None, [example_stored_row])"
  by code_simp

end
